theory Spec2Isabelle
  imports Complex_Main "HOL-Library.Log_Nat"
begin

section \<open>Numbers of the platform\<close>

text \<open>
  A JavaScript number is an IEEE double: a finite value, an infinity or NaN.  A finite
  value is held as the rational it denotes; the two zeros are not told apart.
\<close>

datatype number = Fin rat | PosInf | NegInf | NaN

text \<open>
  Rounding of an exact result to the nearest double, ties to the even significand.
  For a positive \<open>a\<close>, \<open>exponentOf a\<close> is the \<open>e\<close> with \<open>2^e \<le> a < 2^(e+1)\<close>; doubles in that
  binade are spaced \<open>2^(e-52)\<close> apart, and below \<open>2^-1022\<close> the spacing stays \<open>2^-1074\<close>.
  A result that rounds to \<open>2^1024\<close> or more is an infinity.
\<close>

definition exponentOf :: "rat \<Rightarrow> int" where
  "exponentOf a = (if a \<ge> 1 then bitlen \<lfloor>a\<rfloor> - 1 else - bitlen (\<lceil>1 / a\<rceil> - 1))"

definition quantum :: "rat \<Rightarrow> rat" where
  "quantum a = 2 powi (max (exponentOf a) (- 1022) - 52)"

definition roundHalfEven :: "rat \<Rightarrow> int" where
  "roundHalfEven q =
     (let f = \<lfloor>q\<rfloor>; r = q - of_int f
      in if r < 1 / 2 then f else if r > 1 / 2 then f + 1 else if even f then f else f + 1)"

definition roundMagnitude :: "rat \<Rightarrow> rat" where
  "roundMagnitude a = of_int (roundHalfEven (a / quantum a)) * quantum a"

definition overflowBound :: rat where
  "overflowBound = 2 powi 1024"

definition roundToDouble :: "rat \<Rightarrow> number" where
  "roundToDouble x =
     (if x = 0 then Fin 0
      else if roundMagnitude \<bar>x\<bar> \<ge> overflowBound then (if x > 0 then PosInf else NegInf)
      else Fin (if x > 0 then roundMagnitude \<bar>x\<bar> else - roundMagnitude \<bar>x\<bar>))"

text \<open>The comparison \<^verbatim>\<open><=\<close>: false whenever an operand is NaN.\<close>

fun jsLe :: "number \<Rightarrow> number \<Rightarrow> bool" where
  "jsLe NaN y = False"
| "jsLe x NaN = False"
| "jsLe NegInf y = True"
| "jsLe x PosInf = True"
| "jsLe (Fin x) (Fin y) = (x \<le> y)"
| "jsLe PosInf y = False"
| "jsLe x NegInf = False"

text \<open>\<^verbatim>\<open>a >= b\<close> is \<^verbatim>\<open>b <= a\<close>.\<close>

definition jsGe :: "number \<Rightarrow> number \<Rightarrow> bool" where
  "jsGe x y = jsLe y x"

text \<open>\<^verbatim>\<open>Math.min\<close> and \<^verbatim>\<open>Math.max\<close> of two numbers: NaN when either is NaN.\<close>

definition Math_min :: "number \<Rightarrow> number \<Rightarrow> number" where
  "Math_min x y = (if x = NaN \<or> y = NaN then NaN else if jsLe x y then x else y)"

definition Math_max :: "number \<Rightarrow> number \<Rightarrow> number" where
  "Math_max x y = (if x = NaN \<or> y = NaN then NaN else if jsLe x y then y else x)"

text \<open>The sum of two numbers, rounded once.\<close>

fun jsAdd :: "number \<Rightarrow> number \<Rightarrow> number" where
  "jsAdd NaN y = NaN"
| "jsAdd x NaN = NaN"
| "jsAdd PosInf NegInf = NaN"
| "jsAdd NegInf PosInf = NaN"
| "jsAdd PosInf y = PosInf"
| "jsAdd x PosInf = PosInf"
| "jsAdd NegInf y = NegInf"
| "jsAdd x NegInf = NegInf"
| "jsAdd (Fin x) (Fin y) = roundToDouble (x + y)"

text \<open>\<^verbatim>\<open>x / 2\<close>\<close>

definition jsHalve :: "number \<Rightarrow> number" where
  "jsHalve x = (case x of Fin a \<Rightarrow> roundToDouble (a / 2) | _ \<Rightarrow> x)"

text \<open>
  \<^verbatim>\<open>Math.round\<close>: the nearest integer, a half rounded towards plus infinity; an
  infinity and NaN are returned as they are.
\<close>

definition Math_round :: "number \<Rightarrow> number" where
  "Math_round x = (case x of Fin a \<Rightarrow> Fin (of_int \<lfloor>a + 1 / 2\<rfloor>) | _ \<Rightarrow> x)"

text \<open>A score of the rule engine, which is an integer, as a number.\<close>

definition ofScore :: "int \<Rightarrow> number" where
  "ofScore k = Fin (of_int k)"

section \<open>Values read from JSON\<close>

text \<open>
  A value as \<^verbatim>\<open>JSON.parse\<close> returns it.  The fields of an object are kept as a list of
  pairs.
\<close>

datatype jsonValue =
    JNull
  | JBool bool
  | JNum number
  | JStr string
  | JArr "jsonValue list"
  | JObj "(string \<times> jsonValue) list"

text \<open>
  Truthiness, as \<^verbatim>\<open>||\<close> tests it: null, false, zero, NaN and the empty string are
  falsy, every array and every object is truthy.
\<close>

definition truthyJson :: "jsonValue \<Rightarrow> bool" where
  "truthyJson v =
     (case v of
        JNull \<Rightarrow> False
      | JBool b \<Rightarrow> b
      | JNum n \<Rightarrow> n \<noteq> Fin 0 \<and> n \<noteq> NaN
      | JStr t \<Rightarrow> t \<noteq> []
      | JArr xs \<Rightarrow> True
      | JObj fs \<Rightarrow> True)"

text \<open>
  The conversion to a number that \<^verbatim>\<open>Math.min\<close> and \<^verbatim>\<open>Math.max\<close> apply to an argument.
  A number is itself, null is 0, true is 1 and false is 0.  A string, an array and an
  object are converted by the platform's reading of their text (\<^verbatim>\<open>'85'\<close> is 85,
  \<^verbatim>\<open>'high'\<close> is NaN); that reading is an argument.
\<close>

definition toNumber :: "(jsonValue \<Rightarrow> number) \<Rightarrow> jsonValue \<Rightarrow> number" where
  "toNumber readText v =
     (case v of
        JNull \<Rightarrow> Fin 0
      | JBool b \<Rightarrow> Fin (if b then 1 else 0)
      | JNum n \<Rightarrow> n
      | JStr t \<Rightarrow> readText v
      | JArr xs \<Rightarrow> readText v
      | JObj fs \<Rightarrow> readText v)"

section \<open>Risk scoring engine (riskScore.service.ts)\<close>

text \<open>
  In the rule engine a distance is a rational (every finite double is one) and counts
  and the rule-based score are integers.  Timestamps are milliseconds since the epoch,
  as integers.  Nullable columns are options.  The housing status is the string stored
  in the column.
\<close>

record caseWorker =
  cw_phoneNumber :: string

record patient =
  patient_id :: string
  firstName :: string
  lastName :: string
  housingStatus :: string
  distanceFromClinic :: "rat option"
  phoneNumber :: "string option"
  address :: "string option"
  caseWorkers :: "caseWorker list"

record noShowHistory =
  ns_patientId :: string
  ns_appointmentId :: string
  occurredAt :: int

record clinic =
  clinic_name :: string
  clinic_address :: string

text \<open>
  An appointment row as the queries of the source see it, with the patient and the
  clinic that \<^verbatim>\<open>include\<close> joins to it.  No operation of the source that is
  modelled here writes a patient or a clinic.
\<close>

record appointment =
  appt_id :: string
  appt_patient :: patient
  appt_clinic :: clinic
  appointmentDate :: int
  appt_status :: string
  riskScore :: "int option"
  needsRide :: bool
  rideOfferSent :: bool
  aiRiskScore :: "number option"
  aiConfidence :: "number option"
  aiReasoning :: "string option"
  aiRecommendations :: "string option"

datatype RiskCategory = LOW | MEDIUM | HIGH

record RiskFactor =
  factor :: string
  points :: int

record RiskScoreResult =
  score :: int
  category :: RiskCategory
  factors :: "RiskFactor list"

definition HOMELESS :: string where "HOMELESS = ''HOMELESS''"
definition UNSTABLY_HOUSED :: string where "UNSTABLY_HOUSED = ''UNSTABLY_HOUSED''"
definition HOUSED :: string where "HOUSED = ''HOUSED''"

definition getHousingPoints :: "string \<Rightarrow> int" where
  "getHousingPoints hs =
     (if hs = HOMELESS then 40
      else if hs = UNSTABLY_HOUSED then 25
      else if hs = HOUSED then 0
      else 0)"

definition getDistancePoints :: "rat option \<Rightarrow> int" where
  "getDistancePoints d =
     (case d of
        None \<Rightarrow> 20
      | Some x \<Rightarrow> if x > 5 then 30 else if x \<ge> 2 then 20 else 10)"

text \<open>\<^verbatim>\<open>phoneNumber ? 0 : 25\<close>: a JavaScript string is falsy when it is null or empty.\<close>

definition truthy :: "string option \<Rightarrow> bool" where
  "truthy s = (case s of None \<Rightarrow> False | Some t \<Rightarrow> t \<noteq> [])"

definition getPhonePoints :: "string option \<Rightarrow> int" where
  "getPhonePoints ph = (if truthy ph then 0 else 25)"

text \<open>
  The count of no-show rows of the patient that occurred at or after the start of the
  window.  The source computes the start with \<^verbatim>\<open>setMonth(getMonth() - 6)\<close>; the calendar
  is not modelled and the start of the window is an argument.
\<close>

definition getNoShowCount :: "noShowHistory list \<Rightarrow> int \<Rightarrow> string \<Rightarrow> nat" where
  "getNoShowCount table sixMonthsAgo pid =
     length (filter (\<lambda>r. ns_patientId r = pid \<and> occurredAt r \<ge> sixMonthsAgo) table)"

definition getNoShowPoints :: "nat \<Rightarrow> int" where
  "getNoShowPoints noShowCount = min (int noShowCount * 15) 60"

definition getRiskCategory :: "int \<Rightarrow> RiskCategory" where
  "getRiskCategory s = (if s \<le> 30 then LOW else if s \<le> 60 then MEDIUM else HIGH)"

text \<open>
  One step of the accumulation in \<^verbatim>\<open>calculateRiskScore\<close>: a factor is pushed and added
  only when its points are positive.  The reason text of a factor is display text and
  is left out of the record.
\<close>

definition addFactor :: "string \<Rightarrow> int \<Rightarrow> RiskFactor list \<times> int \<Rightarrow> RiskFactor list \<times> int" where
  "addFactor name pts acc =
     (if pts > 0 then (fst acc @ [\<lparr>factor = name, points = pts\<rparr>], snd acc + pts) else acc)"

definition calculateRiskScore ::
  "noShowHistory list \<Rightarrow> int \<Rightarrow> patient \<Rightarrow> appointment \<Rightarrow> RiskScoreResult" where
  "calculateRiskScore table sixMonthsAgo p a =
     (let acc0 = ([], 0);
          acc1 = addFactor ''Housing Status'' (getHousingPoints (housingStatus p)) acc0;
          acc2 = addFactor ''Distance from Clinic'' (getDistancePoints (distanceFromClinic p)) acc1;
          acc3 = addFactor ''Phone Access'' (getPhonePoints (phoneNumber p)) acc2;
          noShowCount = getNoShowCount table sixMonthsAgo (patient_id p);
          acc4 = addFactor ''Previous No-Shows'' (getNoShowPoints noShowCount) acc3;
          totalScore = min (snd acc4) 100
      in \<lparr>score = totalScore, category = getRiskCategory totalScore, factors = fst acc4\<rparr>)"

section \<open>Confidence-weighted adjustment (aiRiskScore.service.ts)\<close>

text \<open>
  An assessment at run time.  The three scores are numbers: the sanitisation makes
  them with \<^verbatim>\<open>Math.max\<close>, and the cache reads them from numeric columns.  The other
  fields hold whatever value the inference provider or the cache supplied.
\<close>

record AIRiskAssessment =
  adjustedScore :: number
  adjustment :: number
  ai_confidence :: number
  reasoning :: jsonValue
  recommendations :: jsonValue
  optimalContactTime :: jsonValue
  riskFactors :: jsonValue

record EnhancedRiskScoreResult =
  base_score :: int
  final_category :: RiskCategory
  base_factors :: "RiskFactor list"
  aiAssessment :: "AIRiskAssessment option"
  finalScore :: number
  isAIEnhanced :: bool
  aiAvailable :: bool

definition combineScores :: "RiskScoreResult \<Rightarrow> AIRiskAssessment \<Rightarrow> EnhancedRiskScoreResult" where
  "combineScores baseResult ai =
     (let finalScore =
            (if jsGe (ai_confidence ai) (Fin 80) then adjustedScore ai
             else if jsGe (ai_confidence ai) (Fin 50)
               then Math_round (jsHalve (jsAdd (ofScore (score baseResult)) (adjustedScore ai)))
             else ofScore (score baseResult));
          category =
            (if jsLe finalScore (Fin 30) then LOW
             else if jsLe finalScore (Fin 60) then MEDIUM
             else HIGH)
      in \<lparr>base_score = score baseResult, final_category = category,
          base_factors = factors baseResult, aiAssessment = Some ai,
          finalScore = finalScore, isAIEnhanced = True, aiAvailable = True\<rparr>)"

text \<open>The result returned when the adjustment is disabled, unconfigured or has failed.\<close>

definition baseOnly :: "RiskScoreResult \<Rightarrow> EnhancedRiskScoreResult" where
  "baseOnly baseResult =
     \<lparr>base_score = score baseResult, final_category = category baseResult,
      base_factors = factors baseResult, aiAssessment = None,
      finalScore = ofScore (score baseResult), isAIEnhanced = False, aiAvailable = False\<rparr>"

text \<open>
  What the inference provider sent back, after \<^verbatim>\<open>JSON.parse\<close>: the seven fields that
  the sanitisation reads, each \<open>None\<close> when the parsed object has no such field (reading
  it gives \<^verbatim>\<open>undefined\<close>) and otherwise the JSON value found there, of whatever kind.
  Reading a field of a parsed \<^verbatim>\<open>null\<close> throws inside the \<^verbatim>\<open>try\<close>, like text that does not
  parse; a parsed number, string or boolean has none of the fields.
\<close>

record aiResult =
  raw_adjustedScore :: "jsonValue option"
  raw_adjustment :: "jsonValue option"
  raw_confidence :: "jsonValue option"
  raw_reasoning :: "jsonValue option"
  raw_recommendations :: "jsonValue option"
  raw_optimalContactTime :: "jsonValue option"
  raw_riskFactors :: "jsonValue option"

datatype aiReply =
    ApiFailure
  | NonTextContent
  | UnparsableText
  | ParsedJson aiResult

text \<open>\<^verbatim>\<open>x || d\<close> on a field of the parsed reply.\<close>

definition orJson :: "jsonValue option \<Rightarrow> jsonValue \<Rightarrow> jsonValue" where
  "orJson x d = (case x of None \<Rightarrow> d | Some v \<Rightarrow> if truthyJson v then v else d)"

text \<open>\<^verbatim>\<open>x || d\<close> on a nullable string: the empty string, like null, is falsy.\<close>

definition orStr :: "string option \<Rightarrow> string \<Rightarrow> string" where
  "orStr x d = (case x of None \<Rightarrow> d | Some t \<Rightarrow> if t = [] then d else t)"

text \<open>\<^verbatim>\<open>Array.isArray(x) ? x.slice(0, 5) : []\<close>\<close>

definition firstFive :: "jsonValue option \<Rightarrow> jsonValue" where
  "firstFive x = (case x of Some (JArr xs) \<Rightarrow> JArr (take 5 xs) | _ \<Rightarrow> JArr [])"

text \<open>
  \<^verbatim>\<open>getAIAssessment\<close> from the point where the provider has answered: a failed call, a
  reply that is not text and text that does not parse all make the method throw
  (\<open>None\<close>); a parsed reply is validated and sanitised field by field.
\<close>

definition getAIAssessment ::
  "(jsonValue \<Rightarrow> number) \<Rightarrow> RiskScoreResult \<Rightarrow> aiReply \<Rightarrow> AIRiskAssessment option" where
  "getAIAssessment readText baseResult reply =
     (case reply of
        ApiFailure \<Rightarrow> None
      | NonTextContent \<Rightarrow> None
      | UnparsableText \<Rightarrow> None
      | ParsedJson r \<Rightarrow>
          Some \<lparr>adjustedScore =
                  Math_max (Fin 0) (Math_min (Fin 100)
                    (toNumber readText
                       (orJson (raw_adjustedScore r) (JNum (ofScore (score baseResult)))))),
                adjustment =
                  Math_max (Fin (- 20)) (Math_min (Fin 20)
                    (toNumber readText (orJson (raw_adjustment r) (JNum (Fin 0))))),
                ai_confidence =
                  Math_max (Fin 0) (Math_min (Fin 100)
                    (toNumber readText (orJson (raw_confidence r) (JNum (Fin 50))))),
                reasoning = orJson (raw_reasoning r) (JStr ''AI assessment completed''),
                recommendations = firstFive (raw_recommendations r),
                optimalContactTime = orJson (raw_optimalContactTime r) (JStr ''Morning''),
                riskFactors = firstFive (raw_riskFactors r)\<rparr>)"

section \<open>Conversational intent resolver (claude.service.ts)\<close>

text \<open>
  Message texts are byte strings in UTF-8.  \<open>toLowerCase\<close> maps the capitals of ASCII
  and leaves every other byte as it is.
\<close>

datatype PatientIntent = CONFIRM_RIDE | DECLINE_RIDE | RESCHEDULE | QUESTION | UNKNOWN

record ParsedPatientResponse =
  intent :: PatientIntent
  confidence :: rat
  alternativePickupLocation :: "string option"
  preferredTime :: "string option"
  rawMessage :: string
  pr_reasoning :: "string option"

definition toLowerChar :: "char \<Rightarrow> char" where
  "toLowerChar c =
     (case map_of (zip ''ABCDEFGHIJKLMNOPQRSTUVWXYZ'' ''abcdefghijklmnopqrstuvwxyz'') c of
        Some d \<Rightarrow> d
      | None \<Rightarrow> c)"

definition toLowerCase :: "string \<Rightarrow> string" where
  "toLowerCase s = map toLowerChar s"

text \<open>
  White space as \<^verbatim>\<open>trim\<close> and \<^verbatim>\<open>\s\<close> know it, in UTF-8: the six ASCII characters, the
  no-break space U+00A0, U+1680, U+2000 to U+200A, the line and paragraph separators
  U+2028 and U+2029, U+202F, U+205F, U+3000 and the byte order mark U+FEFF.
\<close>

definition whiteSpace :: "string list" where
  "whiteSpace =
     [[CHR 0x09], [CHR 0x0A], [CHR 0x0B], [CHR 0x0C], [CHR 0x0D], [CHR 0x20],
      [CHR 0xC2, CHR 0xA0],
      [CHR 0xE1, CHR 0x9A, CHR 0x80],
      [CHR 0xE2, CHR 0x80, CHR 0x80], [CHR 0xE2, CHR 0x80, CHR 0x81],
      [CHR 0xE2, CHR 0x80, CHR 0x82], [CHR 0xE2, CHR 0x80, CHR 0x83],
      [CHR 0xE2, CHR 0x80, CHR 0x84], [CHR 0xE2, CHR 0x80, CHR 0x85],
      [CHR 0xE2, CHR 0x80, CHR 0x86], [CHR 0xE2, CHR 0x80, CHR 0x87],
      [CHR 0xE2, CHR 0x80, CHR 0x88], [CHR 0xE2, CHR 0x80, CHR 0x89],
      [CHR 0xE2, CHR 0x80, CHR 0x8A],
      [CHR 0xE2, CHR 0x80, CHR 0xA8], [CHR 0xE2, CHR 0x80, CHR 0xA9],
      [CHR 0xE2, CHR 0x80, CHR 0xAF],
      [CHR 0xE2, CHR 0x81, CHR 0x9F],
      [CHR 0xE3, CHR 0x80, CHR 0x80],
      [CHR 0xEF, CHR 0xBB, CHR 0xBF]]"

text \<open>The line terminators, which \<^verbatim>\<open>.\<close> does not match: LF, CR, U+2028 and U+2029.\<close>

definition lineTerminators :: "string list" where
  "lineTerminators =
     [[CHR 0x0A], [CHR 0x0D], [CHR 0xE2, CHR 0x80, CHR 0xA8], [CHR 0xE2, CHR 0x80, CHR 0xA9]]"

definition isDigit :: "char \<Rightarrow> bool" where
  "isDigit c = (c \<in> set ''0123456789'')"

text \<open>A pattern anchored at the start only (\<^verbatim>\<open>/^p/\<close>), and one that may match anywhere.\<close>

definition startsWith :: "string \<Rightarrow> string \<Rightarrow> bool" where
  "startsWith p s = (take (length p) s = p)"

fun containsStr :: "string \<Rightarrow> string \<Rightarrow> bool" where
  "containsStr p [] = (p = [])"
| "containsStr p (c # cs) = (startsWith p (c # cs) \<or> containsStr p cs)"

text \<open>
  The number of bytes of the character of the class \<open>ps\<close> that the text starts with;
  0 when it starts with none.
\<close>

fun classAt :: "string list \<Rightarrow> string \<Rightarrow> nat" where
  "classAt [] s = 0"
| "classAt (p # ps) s = (if startsWith p s then length p else classAt ps s)"

text \<open>
  The text without its longest prefix of characters of the class.  The first argument
  counts the bytes still to skip of a character that has been recognised.
\<close>

fun dropClass :: "string list \<Rightarrow> nat \<Rightarrow> string \<Rightarrow> string" where
  "dropClass ps k [] = []"
| "dropClass ps k (c # cs) =
     (if k > 0 then dropClass ps (k - 1) cs
      else if classAt ps (c # cs) = 0 then c # cs
      else dropClass ps (classAt ps (c # cs) - 1) cs)"

definition dropSpaces :: "string \<Rightarrow> string" where
  "dropSpaces s = dropClass whiteSpace 0 s"

definition takeSpaces :: "string \<Rightarrow> string" where
  "takeSpaces s = take (length s - length (dropSpaces s)) s"

text \<open>\<^verbatim>\<open>trim\<close>: white space is removed at both ends.\<close>

definition trim :: "string \<Rightarrow> string" where
  "trim s = rev (dropClass (map rev whiteSpace) 0 (rev (dropSpaces s)))"

text \<open>\<^verbatim>\<open>replace(/[!?.]+/g, '')\<close>\<close>

definition stripPunctuation :: "string \<Rightarrow> string" where
  "stripPunctuation s = filter (\<lambda>c. c \<notin> set ''!?.'') s"

text \<open>
  \<^verbatim>\<open>replace(/\s+/g, ' ')\<close>: every maximal run of white space becomes one blank.  The
  flag tells whether the run that is being read has been replaced already, the
  counter is as in \<open>dropClass\<close>.
\<close>

fun collapseRuns :: "bool \<Rightarrow> nat \<Rightarrow> string \<Rightarrow> string" where
  "collapseRuns inRun k [] = []"
| "collapseRuns inRun k (c # cs) =
     (if k > 0 then collapseRuns inRun (k - 1) cs
      else if classAt whiteSpace (c # cs) = 0 then c # collapseRuns False 0 cs
      else (if inRun then [] else [CHR '' ''])
             @ collapseRuns True (classAt whiteSpace (c # cs) - 1) cs)"

definition collapseSpaces :: "string \<Rightarrow> string" where
  "collapseSpaces s = collapseRuns False 0 s"

text \<open>The longest prefix that \<^verbatim>\<open>.+\<close> can match: it ends before the first line terminator.\<close>

fun takeLine :: "string \<Rightarrow> string" where
  "takeLine [] = []"
| "takeLine (c # cs) = (if classAt lineTerminators (c # cs) = 0 then c # takeLine cs else [])"

text \<open>
  The patterns that are anchored at both ends.  The twelfth pattern of the source file
  is the four characters U+F8FF, U+00FC, U+00EB, U+00E7, written here by their bytes;
  the last decline pattern is U+F8FF, U+00FC, U+00EB, U+00E9.
\<close>

definition confirmPatterns :: "string list" where
  "confirmPatterns =
     [''yes'', ''yeah'', ''yep'', ''yup'', ''ok'', ''okay'', ''sure'', ''sounds good'',
      ''please'', ''yes please'', ''y'',
      [CHR 0xEF, CHR 0xA3, CHR 0xBF, CHR 0xC3, CHR 0xBC, CHR 0xC3, CHR 0xAB, CHR 0xC3, CHR 0xA7],
      ''i need a ride'', ''i want a ride'', ''book it'', ''lets do it'', ''definitely'',
      ''absolutely'']"

definition helperWords :: "string list" where
  "helperWords = [''friend'', ''family'', ''wife'', ''husband'', ''son'', ''daughter'', ''mom'',
     ''dad'', ''brother'', ''sister'']"

definition takingWords :: "string list" where
  "takingWords = [''take'', ''taking'', ''drive'', ''driving'', ''pick'']"

text \<open>The decline patterns that are anchored at both ends.\<close>

definition declineExact :: "string list" where
  "declineExact =
     [''no'', ''nope'', ''nah'', ''n'', ''no thanks'', ''no thank you'', ''i have a ride'',
      ''got a ride'', ''i'm good'', ''im good'', ''i'm ok'', ''im ok'']
     @ [''i '' @ a @ '' '' @ b @ '' '' @ c.
          a \<leftarrow> [''can'', ''will''], b \<leftarrow> [''get'', ''take'', ''drive''],
          c \<leftarrow> [''there'', ''myself'']]
     @ [''cancel'',
        [CHR 0xEF, CHR 0xA3, CHR 0xBF, CHR 0xC3, CHR 0xBC, CHR 0xC3, CHR 0xAB, CHR 0xC3, CHR 0xA9]]"

text \<open>The decline patterns that are anchored at the start only.\<close>

definition declinePrefix :: "string list" where
  "declinePrefix =
     [''don't need'', ''dont need'']
     @ [''my '' @ a @ '' '' @ b @ '' '' @ c.
          a \<leftarrow> helperWords, b \<leftarrow> [''is'', ''will''], c \<leftarrow> takingWords]
     @ [''someone '' @ b @ '' '' @ c. b \<leftarrow> [''is'', ''will''], c \<leftarrow> takingWords]"

definition reschedulePatterns :: "string list" where
  "reschedulePatterns =
     [''reschedule'']
     @ [''change '' @ t @ w. t \<leftarrow> ['''', ''the ''], w \<leftarrow> [''time'', ''date'', ''appointment'']]
     @ [''different '' @ w. w \<leftarrow> [''time'', ''day'', ''date'']]
     @ [''can't make it'', ''cant make it'']
     @ [''move '' @ t @ w. t \<leftarrow> ['''', ''the ''], w \<leftarrow> [''appointment'', ''time'']]
     @ [''not '' @ d @ '' '' @ w. d \<leftarrow> [''that'', ''this''], w \<leftarrow> [''time'', ''day'', ''date'']]"

definition questionWords :: "string list" where
  "questionWords =
     [''what'', ''when'', ''where'', ''who'', ''how'', ''why'', ''which'', ''is'', ''are'', ''can'',
      ''will'', ''do'', ''does'', ''tell me'', ''let me know'']"

text \<open>\<^verbatim>\<open>/\?$/\<close>, or one of the interrogative openings.\<close>

definition isQuestion :: "string \<Rightarrow> bool" where
  "isQuestion normalized =
     ((normalized \<noteq> [] \<and> last normalized = CHR ''?'')
      \<or> list_ex (\<lambda>p. startsWith p normalized) questionWords)"

text \<open>
  \<^verbatim>\<open>message.match(/pick(?: me)? up (?:at|from) (.+)/i)\<close>: the leftmost position where one
  of the four openings is followed by at least one character that is not a line
  terminator; the group is the rest of that line.
\<close>

definition locationOpenings :: "string list" where
  "locationOpenings =
     [''pick'' @ m @ '' up '' @ w @ '' ''. m \<leftarrow> ['' me'', ''''], w \<leftarrow> [''at'', ''from'']]"

fun groupAfter :: "string list \<Rightarrow> string \<Rightarrow> string option" where
  "groupAfter [] s = None"
| "groupAfter (p # ps) s =
     (if startsWith p (toLowerCase (take (length p) s))
         \<and> takeLine (drop (length p) s) \<noteq> []
      then Some (takeLine (drop (length p) s))
      else groupAfter ps s)"

fun locationMatch :: "string \<Rightarrow> string option" where
  "locationMatch [] = None"
| "locationMatch (c # cs) =
     (case groupAfter locationOpenings (c # cs) of
        Some g \<Rightarrow> Some g
      | None \<Rightarrow> locationMatch cs)"

text \<open>
  \<^verbatim>\<open>message.match(/(?:at|around|by) (\d{1,2}(?::\d{2})?\s*(?:am|pm)?)/i)\<close>.  Once the
  first digit is there every later part may be empty, so the greedy match never
  backtracks: a second digit, then a colon with two digits, then white space, then
  am or pm, each taken when present.
\<close>

definition optDigit :: "string \<Rightarrow> string \<times> string" where
  "optDigit s = (case s of c # cs \<Rightarrow> if isDigit c then ([c], cs) else ([], s) | [] \<Rightarrow> ([], s))"

definition optMinutes :: "string \<Rightarrow> string \<times> string" where
  "optMinutes s =
     (case s of
        c # d # e # rest \<Rightarrow>
          if c = CHR '':'' \<and> isDigit d \<and> isDigit e then ([c, d, e], rest) else ([], s)
      | _ \<Rightarrow> ([], s))"

definition optMeridiem :: "string \<Rightarrow> string" where
  "optMeridiem s =
     (if toLowerCase (take 2 s) = ''am'' \<or> toLowerCase (take 2 s) = ''pm'' then take 2 s else [])"

definition timeGroup :: "string \<Rightarrow> string option" where
  "timeGroup s =
     (case s of
        [] \<Rightarrow> None
      | c # cs \<Rightarrow>
          if isDigit c then
            (let (d2, r1) = optDigit cs;
                 (mins, r2) = optMinutes r1;
                 ws = takeSpaces r2;
                 r3 = dropSpaces r2
             in Some ([c] @ d2 @ mins @ ws @ optMeridiem r3))
          else None)"

definition timeOpenings :: "string list" where
  "timeOpenings = [''at '', ''around '', ''by '']"

fun timeAfter :: "string list \<Rightarrow> string \<Rightarrow> string option" where
  "timeAfter [] s = None"
| "timeAfter (p # ps) s =
     (if startsWith p (toLowerCase (take (length p) s))
      then (case timeGroup (drop (length p) s) of Some g \<Rightarrow> Some g | None \<Rightarrow> timeAfter ps s)
      else timeAfter ps s)"

fun timeMatch :: "string \<Rightarrow> string option" where
  "timeMatch [] = None"
| "timeMatch (c # cs) =
     (case timeAfter timeOpenings (c # cs) of
        Some g \<Rightarrow> Some g
      | None \<Rightarrow> timeMatch cs)"

definition ruleResult ::
  "PatientIntent \<Rightarrow> rat \<Rightarrow> string option \<Rightarrow> string option \<Rightarrow> string \<Rightarrow> ParsedPatientResponse" where
  "ruleResult i c loc t msg =
     \<lparr>intent = i, confidence = c, alternativePickupLocation = loc, preferredTime = t,
      rawMessage = msg, pr_reasoning = None\<rparr>"

definition ruleBasedParsing :: "string \<Rightarrow> ParsedPatientResponse" where
  "ruleBasedParsing message =
     (let normalized = trim (toLowerCase message);
          cleaned = collapseSpaces (stripPunctuation normalized)
      in if cleaned \<in> set confirmPatterns then
           ruleResult CONFIRM_RIDE (95 / 100) None None message
         else if cleaned \<in> set declineExact \<or> list_ex (\<lambda>p. startsWith p cleaned) declinePrefix then
           ruleResult DECLINE_RIDE (95 / 100) None None message
         else if list_ex (\<lambda>p. containsStr p cleaned) reschedulePatterns then
           ruleResult RESCHEDULE (8 / 10) None None message
         else if isQuestion normalized then
           ruleResult QUESTION (7 / 10) None None message
         else
           (case locationMatch message of
              Some loc \<Rightarrow> ruleResult CONFIRM_RIDE (85 / 100) (Some (trim loc)) None message
            | None \<Rightarrow>
                (case timeMatch message of
                   Some t \<Rightarrow> ruleResult CONFIRM_RIDE (7 / 10) None (Some (trim t)) message
                 | None \<Rightarrow> ruleResult UNKNOWN (3 / 10) None None message)))"

text \<open>
  The external inference provider.  A call either fails, or answers with content that
  is not text, or with text that does not parse, or with a parsed object.  The source
  casts the parsed intent to the enumeration unchecked.
\<close>

record claudeParsed =
  cp_intent :: PatientIntent
  cp_confidence :: rat
  cp_alternativePickupLocation :: "string option"
  cp_preferredTime :: "string option"
  cp_reasoning :: "string option"

datatype claudeReply =
    ClaudeFailure
  | ClaudeNonText
  | ClaudeUnparsable
  | ClaudeParsed claudeParsed

record parseContext =
  ctx_patientName :: "string option"
  ctx_appointmentDate :: "string option"
  ctx_clinicName :: "string option"

type_synonym claudeClient = "string \<Rightarrow> parseContext option \<Rightarrow> claudeReply"

definition falsyToNone :: "string option \<Rightarrow> string option" where
  "falsyToNone x = (if truthy x then x else None)"

text \<open>\<^verbatim>\<open>parseWithClaude\<close>: \<open>None\<close> is the exception of a failed call.\<close>

definition parseWithClaude ::
  "claudeClient \<Rightarrow> string \<Rightarrow> parseContext option \<Rightarrow> ParsedPatientResponse option" where
  "parseWithClaude client message ctx =
     (case client message ctx of
        ClaudeFailure \<Rightarrow> None
      | ClaudeNonText \<Rightarrow> Some (ruleBasedParsing message)
      | ClaudeUnparsable \<Rightarrow> Some (ruleBasedParsing message)
      | ClaudeParsed p \<Rightarrow>
          Some \<lparr>intent = cp_intent p, confidence = cp_confidence p,
                alternativePickupLocation = falsyToNone (cp_alternativePickupLocation p),
                preferredTime = falsyToNone (cp_preferredTime p),
                rawMessage = message, pr_reasoning = cp_reasoning p\<rparr>)"

text \<open>
  \<^verbatim>\<open>parsePatientResponse\<close>.  The client is absent in test mode.  The second component
  of the result counts the calls made to the external provider.
\<close>

definition parsePatientResponse ::
  "claudeClient option \<Rightarrow> string \<Rightarrow> parseContext option \<Rightarrow> ParsedPatientResponse \<times> nat" where
  "parsePatientResponse client message ctx =
     (let ruleBasedResult = ruleBasedParsing message
      in if confidence ruleBasedResult \<ge> 9 / 10 then (ruleBasedResult, 0)
         else
           (case client of
              Some c \<Rightarrow>
                (case parseWithClaude c message ctx of
                   Some r \<Rightarrow> (r, 1)
                 | None \<Rightarrow> (ruleBasedResult, 1))
            | None \<Rightarrow> (ruleBasedResult, 0)))"

section \<open>Stored data and the external collaborators\<close>

datatype SMSDirection = OUTBOUND | INBOUND

datatype SMSStatus = SENT | DELIVERED | FAILED | RECEIVED

record sMSMessage =
  sms_appointmentId :: string
  sms_phoneNumber :: string
  sms_message :: string
  sms_direction :: SMSDirection
  sms_status :: SMSStatus
  sms_twilioSid :: "string option"

record ride =
  ride_id :: string
  ride_appointmentId :: string
  pickupLocation :: string
  dropoffLocation :: string
  pickupTime :: int
  ride_status :: string
  uberRideId :: "string option"
  estimatedCost :: "rat option"
  driverName :: "string option"
  vehicleInfo :: "string option"
  driverLocation :: "(rat \<times> rat) option"

record aIRiskCache =
  cache_aiScore :: number
  cache_confidence :: number
  cache_reasoning :: "string option"
  cache_recommendations :: string
  cache_riskFactors :: string
  cache_optimalContactTime :: "string option"
  expiresAt :: int

record uberDriver =
  driver_name :: string
  driver_vehicle :: string
  driver_license :: string

record uberRideResponse =
  uber_ride_id :: string
  uber_status :: string
  uber_driver :: "uberDriver option"
  uber_pickup_time :: int
  uber_estimated_cost :: rat
  uber_current_location :: "(rat \<times> rat) option"

text \<open>
  The tables of the store and, beside them, the in-memory map \<^verbatim>\<open>mockRides\<close> of the
  mocked ride provider.  The message table is kept in order of creation, newest last.
  The cache table has one row per appointment at most (its key is unique).
\<close>

record state =
  appointments :: "appointment list"
  rides :: "ride list"
  smsMessages :: "sMSMessage list"
  aiRiskCacheTable :: "string \<rightharpoonup> aIRiskCache"
  noShowHistoryTable :: "noShowHistory list"
  mockRides :: "string \<rightharpoonup> uberRideResponse"

text \<open>The events pushed to the operators' feed, with the fields that identify them.\<close>

datatype event =
    RIDE_OFFER_SENT string string
  | RIDE_STATUS_UPDATE string string string
  | SMS_RECEIVED string string PatientIntent
  | RIDE_BOOKED string string

definition SCHEDULED :: string where "SCHEDULED = ''SCHEDULED''"
definition CONFIRMED :: string where "CONFIRMED = ''CONFIRMED''"
definition DRIVER_ASSIGNED :: string where "DRIVER_ASSIGNED = ''DRIVER_ASSIGNED''"
definition IN_PROGRESS :: string where "IN_PROGRESS = ''IN_PROGRESS''"
definition COMPLETED :: string where "COMPLETED = ''COMPLETED''"
definition CANCELLED :: string where "CANCELLED = ''CANCELLED''"

section \<open>Outreach dispatcher (twilio.service.ts)\<close>

text \<open>
  The message gateway: in test mode nothing is sent and a made-up identifier is
  stored; otherwise the transport either accepts the message and returns its
  identifier (\<open>Inr\<close>) or fails with an error text (\<open>Inl\<close>).  Dates are rendered by the platform's locale functions, which
  are arguments here.
\<close>

record twilioService =
  isTestMode :: bool
  transport :: "string \<Rightarrow> string \<Rightarrow> string + string"
  testSid :: string
  formatDate :: "int \<Rightarrow> string"
  formatTime :: "int \<Rightarrow> string"

record SMSSendResult =
  success :: bool
  res_twilioSid :: "string option"
  res_error :: "string option"

text \<open>
  \<^verbatim>\<open>sendSMS\<close> creates the outbound row with status SENT and then updates that same row;
  the row is shown here as the update leaves it.
\<close>

definition sendSMS ::
  "twilioService \<Rightarrow> state \<Rightarrow> string \<Rightarrow> string \<Rightarrow> string option \<Rightarrow> SMSSendResult \<times> state" where
  "sendSMS tw s to body appointmentId =
     (let smsRecord = \<lparr>sms_appointmentId = orStr appointmentId [], sms_phoneNumber = to,
                        sms_message = body, sms_direction = OUTBOUND, sms_status = SENT,
                        sms_twilioSid = None\<rparr>
      in if isTestMode tw then
           (\<lparr>success = True, res_twilioSid = Some (testSid tw), res_error = None\<rparr>,
            s\<lparr>smsMessages := smsMessages s
                 @ [smsRecord\<lparr>sms_twilioSid := Some (testSid tw), sms_status := DELIVERED\<rparr>]\<rparr>)
         else
           (case transport tw to body of
              Inr sid \<Rightarrow>
                (\<lparr>success = True, res_twilioSid = Some sid, res_error = None\<rparr>,
                 s\<lparr>smsMessages := smsMessages s
                      @ [smsRecord\<lparr>sms_twilioSid := Some sid, sms_status := DELIVERED\<rparr>]\<rparr>)
            | Inl errorMessage \<Rightarrow>
                (\<lparr>success = False, res_twilioSid = None, res_error = Some errorMessage\<rparr>,
                 s\<lparr>smsMessages := smsMessages s @ [smsRecord\<lparr>sms_status := FAILED\<rparr>]\<rparr>)))"

definition offerText :: "twilioService \<Rightarrow> appointment \<Rightarrow> bool \<Rightarrow> string" where
  "offerText tw a toCaseworker =
     (let p = appt_patient a;
          formattedDate = formatDate tw (appointmentDate a);
          formattedTime = formatTime tw (appointmentDate a)
      in if toCaseworker then
           ''Hi! This is RideKeeper. Your client '' @ firstName p @ '' '' @ lastName p
           @ '' has an appointment on '' @ formattedDate @ '' at '' @ formattedTime @ '' at ''
           @ clinic_name (appt_clinic a)
           @ ''. They may need a free ride. Can you confirm they'll be ready for pickup? ''
           @ ''Reply YES to book the ride.''
         else
           ''Hi '' @ firstName p @ ''! You have an appointment on '' @ formattedDate @ '' at ''
           @ formattedTime @ '' at '' @ clinic_name (appt_clinic a)
           @ ''. Need a free ride? Reply YES and we'll send an Uber to pick you up.'')"

definition sendRideOffer ::
  "twilioService \<Rightarrow> state \<Rightarrow> appointment \<Rightarrow> string option \<Rightarrow> SMSSendResult \<times> state" where
  "sendRideOffer tw s a caseworkerPhone =
     (let targetPhone = (if truthy caseworkerPhone then caseworkerPhone
                         else phoneNumber (appt_patient a))
      in if \<not> truthy targetPhone then
           (\<lparr>success = False, res_twilioSid = None,
             res_error = Some ''No phone number available for patient or caseworker''\<rparr>, s)
         else sendSMS tw s (orStr targetPhone []) (offerText tw a (truthy caseworkerPhone))
                (Some (appt_id a)))"

definition sendDriverArriving ::
  "twilioService \<Rightarrow> state \<Rightarrow> ride \<Rightarrow> string \<Rightarrow> SMSSendResult \<times> state" where
  "sendDriverArriving tw s r targetPhone =
     sendSMS tw s targetPhone
       (''Your driver '' @ orStr (driverName r) [] @ '' is arriving now in a ''
        @ orStr (vehicleInfo r) ''vehicle'' @ ''. Head to '' @ pickupLocation r @ ''!'')
       (Some (ride_appointmentId r))"

text \<open>
  \<^verbatim>\<open>handleIncomingSMS\<close>: the most recent outbound message to the sender gives the
  appointment; the inbound message is stored in every case.
\<close>

definition recentOutbound :: "state \<Rightarrow> string \<Rightarrow> sMSMessage option" where
  "recentOutbound s from =
     find (\<lambda>m. sms_phoneNumber m = from \<and> sms_direction m = OUTBOUND) (rev (smsMessages s))"

definition handleIncomingSMS ::
  "state \<Rightarrow> string \<Rightarrow> string \<Rightarrow> string \<Rightarrow> string option \<times> state" where
  "handleIncomingSMS s from body twilioSid =
     (let appointmentId =
            (case recentOutbound s from of
               None \<Rightarrow> None
             | Some m \<Rightarrow> if sms_appointmentId m = [] then None else Some (sms_appointmentId m))
      in (appointmentId,
          s\<lparr>smsMessages := smsMessages s
               @ [\<lparr>sms_appointmentId = orStr appointmentId [], sms_phoneNumber = from,
                   sms_message = body, sms_direction = INBOUND, sms_status = RECEIVED,
                   sms_twilioSid = Some twilioSid\<rparr>]\<rparr>))"

text \<open>The contact an outreach goes to: the patient's number, else the first proxy's.\<close>

definition firstCaseWorkerPhone :: "patient \<Rightarrow> string option" where
  "firstCaseWorkerPhone p =
     (case caseWorkers p of [] \<Rightarrow> None | w # _ \<Rightarrow> Some (cw_phoneNumber w))"

definition contactPhone :: "patient \<Rightarrow> string option" where
  "contactPhone p = (if truthy (phoneNumber p) then phoneNumber p else firstCaseWorkerPhone p)"

section \<open>Offer sweep and the manual offer (scheduler.service.ts, appointments.routes.ts)\<close>

definition hours :: "int \<Rightarrow> int" where
  "hours n = n * 60 * 60 * 1000"

definition offerCandidates :: "int \<Rightarrow> state \<Rightarrow> appointment list" where
  "offerCandidates now s =
     filter (\<lambda>a. appointmentDate a \<ge> now + hours 24 \<and> appointmentDate a \<le> now + hours 25
                 \<and> appt_status a = SCHEDULED
                 \<and> (case riskScore a of Some r \<Rightarrow> r \<ge> 61 | None \<Rightarrow> False)
                 \<and> rideOfferSent a = False)
       (appointments s)"

definition markOfferSent :: "state \<Rightarrow> string \<Rightarrow> state" where
  "markOfferSent s i =
     s\<lparr>appointments :=
          map (\<lambda>a. if appt_id a = i then a\<lparr>rideOfferSent := True\<rparr> else a) (appointments s)\<rparr>"

text \<open>The body of the loop of \<^verbatim>\<open>sendRideOffers\<close>, for one appointment of the query's result.\<close>

definition offerStep ::
  "twilioService \<Rightarrow> appointment \<Rightarrow> state \<times> event list \<Rightarrow> state \<times> event list" where
  "offerStep tw a acc =
     (let s = fst acc; ev = snd acc; p = appt_patient a; targetPhone = contactPhone p
      in if \<not> truthy targetPhone then acc
         else
           (let sent = sendRideOffer tw s a
                         (if \<not> truthy (phoneNumber p) then targetPhone else None)
            in if success (fst sent) then
                 (markOfferSent (snd sent) (appt_id a),
                  ev @ [RIDE_OFFER_SENT (appt_id a) (orStr targetPhone [])])
               else (snd sent, ev)))"

definition sendRideOffers :: "twilioService \<Rightarrow> int \<Rightarrow> state \<Rightarrow> state \<times> event list" where
  "sendRideOffers tw now s = fold (offerStep tw) (offerCandidates now s) (s, [])"

text \<open>\<^verbatim>\<open>invalidateCache\<close>: delete the appointment's row, if there is one.\<close>

definition invalidateCache :: "state \<Rightarrow> string \<Rightarrow> state" where
  "invalidateCache s appointmentId =
     s\<lparr>aiRiskCacheTable := (aiRiskCacheTable s)(appointmentId := None)\<rparr>"

datatype httpError = HttpError nat string

record offerRideResponse =
  offer_success :: bool
  offer_twilioSid :: "string option"
  offer_sentTo :: string
  offer_viaCaseworker :: bool
  offer_error :: "string option"

text \<open>
  \<^verbatim>\<open>POST /api/appointments/:id/offer-ride\<close>.  In demo mode the handler also arms two
  timers that later record a simulated reply and a booking; they run after the
  response and are not part of this function.
\<close>

definition offerRide ::
  "twilioService \<Rightarrow> state \<Rightarrow> string \<Rightarrow> (httpError + offerRideResponse) \<times> state \<times> event list" where
  "offerRide tw s i =
     (case find (\<lambda>a. appt_id a = i) (appointments s) of
        None \<Rightarrow> (Inl (HttpError 404 ''NOT_FOUND''), s, [])
      | Some a \<Rightarrow>
          (let p = appt_patient a;
               viaCaseworker = (\<not> truthy (phoneNumber p) \<and> caseWorkers p \<noteq> []);
               targetPhone = (if viaCaseworker then firstCaseWorkerPhone p else phoneNumber p)
           in if \<not> truthy targetPhone then (Inl (HttpError 400 ''NO_PHONE''), s, [])
              else
                (let sent = sendRideOffer tw s a (if viaCaseworker then targetPhone else None);
                     response = \<lparr>offer_success = success (fst sent),
                                 offer_twilioSid = res_twilioSid (fst sent),
                                 offer_sentTo = orStr targetPhone [],
                                 offer_viaCaseworker = viaCaseworker,
                                 offer_error = res_error (fst sent)\<rparr>
                 in if success (fst sent) then
                      (Inr response, invalidateCache (markOfferSent (snd sent) i) i,
                       [RIDE_OFFER_SENT i (orStr targetPhone [])])
                    else (Inr response, snd sent, []))))"

section \<open>Status-sync sweep (scheduler.service.ts)\<close>

definition statusMap :: "string \<Rightarrow> string option" where
  "statusMap =
     map_of [(''scheduled'', SCHEDULED), (''driver_assigned'', DRIVER_ASSIGNED),
             (''en_route'', DRIVER_ASSIGNED), (''arrived'', DRIVER_ASSIGNED),
             (''in_progress'', IN_PROGRESS), (''completed'', COMPLETED),
             (''cancelled'', CANCELLED)]"

definition activeRide :: "ride \<Rightarrow> bool" where
  "activeRide r = (ride_status r \<in> set [SCHEDULED, DRIVER_ASSIGNED, IN_PROGRESS])"

definition ridePatient :: "state \<Rightarrow> ride \<Rightarrow> patient option" where
  "ridePatient s r =
     map_option appt_patient (find (\<lambda>a. appt_id a = ride_appointmentId r) (appointments s))"

text \<open>\<^verbatim>\<open>statusMap[uberStatus.status] || ride.status\<close>\<close>

definition newStatusOf :: "uberRideResponse \<Rightarrow> ride \<Rightarrow> string" where
  "newStatusOf us r = (case statusMap (uber_status us) of Some t \<Rightarrow> t | None \<Rightarrow> ride_status r)"

text \<open>
  The write of the sweep to the row whose id is the ride's.  The values come from the
  ride as the query read it; a field whose new value is undefined is not written.
\<close>

definition syncedRow :: "uberRideResponse \<Rightarrow> ride \<Rightarrow> ride \<Rightarrow> ride" where
  "syncedRow us r x =
     x\<lparr>ride_status := newStatusOf us r,
       driverName :=
         (case uber_driver us of
            Some d \<Rightarrow> if driver_name d = [] then driverName r else Some (driver_name d)
          | None \<Rightarrow> driverName r),
       vehicleInfo :=
         (case uber_driver us of
            Some d \<Rightarrow> Some (driver_vehicle d @ '' ('' @ driver_license d @ '')'')
          | None \<Rightarrow> vehicleInfo r),
       driverLocation :=
         (case uber_current_location us of Some l \<Rightarrow> Some l | None \<Rightarrow> driverLocation x)\<rparr>"

definition writeRide :: "state \<Rightarrow> uberRideResponse \<Rightarrow> ride \<Rightarrow> state" where
  "writeRide s us r =
     s\<lparr>rides := map (\<lambda>x. if ride_id x = ride_id r then syncedRow us r x else x) (rides s)\<rparr>"

text \<open>
  The body of the loop of \<^verbatim>\<open>updateRideStatuses\<close> for one ride of the query's result,
  joined with its patient.  The provider's answer is \<open>None\<close> when it knows no such ride
  or when the call fails; both skip the ride.
\<close>

definition syncStep ::
  "twilioService \<Rightarrow> (string \<Rightarrow> uberRideResponse option) \<Rightarrow> ride \<times> patient option
     \<Rightarrow> state \<times> event list \<Rightarrow> state \<times> event list" where
  "syncStep tw provider rp acc =
     (let r = fst rp; s = fst acc; ev = snd acc
      in if \<not> truthy (uberRideId r) then acc
         else
           (case provider (orStr (uberRideId r) []) of
              None \<Rightarrow> acc
            | Some us \<Rightarrow>
                (let newStatus = newStatusOf us r;
                     statusChanged = (newStatus \<noteq> ride_status r);
                     s1 = writeRide s us r
                 in if statusChanged then
                      (let ev1 = ev @ [RIDE_STATUS_UPDATE (ride_id r) (ride_status r) newStatus]
                       in if uber_status us = ''arrived'' then
                            (case snd rp of
                               None \<Rightarrow> (s1, ev1)
                             | Some p \<Rightarrow>
                                 if truthy (contactPhone p) then
                                   (snd (sendDriverArriving tw s1 r (orStr (contactPhone p) [])),
                                    ev1)
                                 else (s1, ev1))
                          else (s1, ev1))
                    else (s1, ev))))"

definition updateRideStatuses ::
  "twilioService \<Rightarrow> (string \<Rightarrow> uberRideResponse option) \<Rightarrow> state \<Rightarrow> state \<times> event list" where
  "updateRideStatuses tw provider s =
     fold (syncStep tw provider)
       (map (\<lambda>r. (r, ridePatient s r)) (filter activeRide (rides s))) (s, [])"

section \<open>Cancellation (uberHealth.service.ts, rides.routes.ts)\<close>

record cancelResult =
  cancel_success :: bool
  cancel_message :: string

definition cancelRide :: "state \<Rightarrow> string \<Rightarrow> cancelResult \<times> state" where
  "cancelRide s rideId =
     (case mockRides s rideId of
        None \<Rightarrow> (\<lparr>cancel_success = False, cancel_message = ''Ride not found''\<rparr>, s)
      | Some r \<Rightarrow>
          if uber_status r = ''completed'' then
            (\<lparr>cancel_success = False, cancel_message = ''Cannot cancel completed ride''\<rparr>, s)
          else if uber_status r = ''in_progress'' then
            (\<lparr>cancel_success = False, cancel_message = ''Cannot cancel ride in progress''\<rparr>, s)
          else
            (\<lparr>cancel_success = True, cancel_message = ''Ride cancelled successfully''\<rparr>,
             s\<lparr>mockRides := (mockRides s)(rideId \<mapsto> r\<lparr>uber_status := ''cancelled''\<rparr>)\<rparr>))"

definition setRideStatus :: "state \<Rightarrow> string \<Rightarrow> string \<Rightarrow> state" where
  "setRideStatus s i st =
     s\<lparr>rides := map (\<lambda>x. if ride_id x = i then x\<lparr>ride_status := st\<rparr> else x) (rides s)\<rparr>"

text \<open>\<^verbatim>\<open>POST /api/rides/:id/cancel\<close>\<close>

definition cancelRoute :: "state \<Rightarrow> string \<Rightarrow> (httpError + ride) \<times> state \<times> event list" where
  "cancelRoute s i =
     (case find (\<lambda>r. ride_id r = i) (rides s) of
        None \<Rightarrow> (Inl (HttpError 404 ''NOT_FOUND''), s, [])
      | Some r \<Rightarrow>
          (let cancelled = (if truthy (uberRideId r) then cancelRide s (orStr (uberRideId r) [])
                            else (\<lparr>cancel_success = True, cancel_message = []\<rparr>, s))
           in if \<not> cancel_success (fst cancelled) then
                (Inl (HttpError 400 ''CANCEL_FAILED''), snd cancelled, [])
              else
                (Inr (r\<lparr>ride_status := CANCELLED\<rparr>), setRideStatus (snd cancelled) i CANCELLED,
                 [RIDE_STATUS_UPDATE i (ride_status r) CANCELLED])))"

section \<open>Inbound messages (sms.routes.ts)\<close>

text \<open>
  What the surroundings supply to a booking: the identifier the store gives the new
  ride row, and the identifier and the cost estimate the ride provider answers with.
\<close>

record bookingEnv =
  new_ride_id :: string
  new_uber_ride_id :: string
  new_estimated_cost :: rat

text \<open>\<^verbatim>\<open>bookRide\<close> of the mocked provider: the new ride is stored under its identifier.\<close>

definition bookRide :: "bookingEnv \<Rightarrow> state \<Rightarrow> int \<Rightarrow> uberRideResponse \<times> state" where
  "bookRide b s pickup =
     (let r = \<lparr>uber_ride_id = new_uber_ride_id b, uber_status = ''scheduled'',
               uber_driver = None, uber_pickup_time = pickup,
               uber_estimated_cost = new_estimated_cost b, uber_current_location = None\<rparr>
      in (r, s\<lparr>mockRides := (mockRides s)(new_uber_ride_id b \<mapsto> r)\<rparr>))"

definition minutes :: "int \<Rightarrow> int" where
  "minutes n = n * 60 * 1000"

text \<open>
  The branch of the handler for a confirmation: book unless the appointment has a ride.
  The result is the reply text, the new state and the events.
\<close>

definition confirmRide ::
  "twilioService \<Rightarrow> bookingEnv \<Rightarrow> state \<Rightarrow> appointment \<Rightarrow> ParsedPatientResponse
     \<Rightarrow> string \<times> state \<times> event list" where
  "confirmRide tw b s a parsed =
     (case find (\<lambda>r. ride_appointmentId r = appt_id a) (rides s) of
        Some r \<Rightarrow>
          (''You already have a ride booked! We'll text you when your driver is nearby.'', s, [])
      | None \<Rightarrow>
          (let pickup = appointmentDate a - minutes 45;
               location = orStr (alternativePickupLocation parsed)
                            (orStr (address (appt_patient a))
                               ''Main entrance of your current location'');
               booked = bookRide b s pickup;
               newRide = \<lparr>ride_id = new_ride_id b, ride_appointmentId = appt_id a,
                          pickupLocation = location,
                          dropoffLocation = clinic_address (appt_clinic a),
                          pickupTime = pickup, ride_status = ''SCHEDULED'',
                          uberRideId = Some (uber_ride_id (fst booked)),
                          estimatedCost = Some (uber_estimated_cost (fst booked)),
                          driverName = None, vehicleInfo = None, driverLocation = None\<rparr>;
               s1 = (snd booked)\<lparr>rides := rides (snd booked) @ [newRide]\<rparr>;
               s2 = s1\<lparr>appointments :=
                         map (\<lambda>x. if appt_id x = appt_id a then x\<lparr>appt_status := CONFIRMED\<rparr> else x)
                           (appointments s1)\<rparr>
           in (''Great! Your ride is confirmed for '' @ formatTime tw pickup @ ''. Pickup: ''
               @ location @ ''. We'll text you when your driver is nearby. See you tomorrow!'',
               s2, [RIDE_BOOKED (new_ride_id b) (appt_id a)])))"

definition declineRide :: "state \<Rightarrow> appointment \<Rightarrow> string \<times> state \<times> event list" where
  "declineRide s a =
     (''No problem! Let us know if you need anything else. See you at your appointment!'',
      s\<lparr>appointments :=
           map (\<lambda>x. if appt_id x = appt_id a then x\<lparr>needsRide := False\<rparr> else x) (appointments s)\<rparr>,
      [])"

text \<open>
  The \<^verbatim>\<open>switch\<close> of the handler on the resolved intent.  The answer to a question is
  written by the inference provider or by fixed fallbacks; it is an argument.
\<close>

definition handleIntent ::
  "twilioService \<Rightarrow> (string \<Rightarrow> appointment \<Rightarrow> string) \<Rightarrow> bookingEnv \<Rightarrow> state \<Rightarrow> appointment
     \<Rightarrow> string \<Rightarrow> ParsedPatientResponse \<Rightarrow> string \<times> state \<times> event list" where
  "handleIntent tw generateResponse b s0 a body parsed =
     (case intent parsed of
        CONFIRM_RIDE \<Rightarrow> confirmRide tw b s0 a parsed
      | DECLINE_RIDE \<Rightarrow> declineRide s0 a
      | RESCHEDULE \<Rightarrow>
          (''To reschedule your appointment, please call the clinic directly. ''
           @ ''Would you still like a ride to your current appointment? ''
           @ ''Reply YES or NO.'', s0, [])
      | QUESTION \<Rightarrow> (generateResponse body a, s0, [])
      | UNKNOWN \<Rightarrow>
          (''Sorry, I didn't understand that. Reply YES if you need a free ride ''
           @ ''to your appointment, or NO if you have transportation. ''
           @ ''Questions? A coordinator will reach out shortly.'', s0, []))"

text \<open>
  \<^verbatim>\<open>POST /api/sms/webhook\<close>.  The result is the new state, the events and the number
  of calls made to the intent provider.
\<close>

definition webhook ::
  "twilioService \<Rightarrow> claudeClient option \<Rightarrow> (string \<Rightarrow> appointment \<Rightarrow> string) \<Rightarrow> (int \<Rightarrow> string)
     \<Rightarrow> bookingEnv \<Rightarrow> state \<Rightarrow> string \<Rightarrow> string \<Rightarrow> string \<Rightarrow> state \<times> event list \<times> nat" where
  "webhook tw claude generateResponse toISOString b s from body messageSid =
     (let recorded = handleIncomingSMS s from body messageSid; s0 = snd recorded
      in case fst recorded of
           None \<Rightarrow> (s0, [], 0)
         | Some appointmentId \<Rightarrow>
             (case find (\<lambda>a. appt_id a = appointmentId) (appointments s0) of
                None \<Rightarrow> (s0, [], 0)
              | Some a \<Rightarrow>
                  (let parsed = parsePatientResponse claude body
                                  (Some \<lparr>ctx_patientName = Some (firstName (appt_patient a)),
                                         ctx_appointmentDate = Some (toISOString (appointmentDate a)),
                                         ctx_clinicName = Some (clinic_name (appt_clinic a))\<rparr>);
                       received = SMS_RECEIVED appointmentId from (intent (fst parsed));
                       handled = handleIntent tw generateResponse b s0 a body (fst parsed);
                       responseMessage = fst handled;
                       s1 = fst (snd handled);
                       s2 = (if responseMessage \<noteq> []
                             then snd (sendSMS tw s1 from responseMessage (Some appointmentId))
                             else s1)
                   in (s2, received # snd (snd handled), snd parsed))))"

section \<open>Cached assessments (aiRiskScore.service.ts)\<close>

text \<open>
  What the surroundings supply to the cache.  The expiry is the local clock set 24
  hours ahead with \<^verbatim>\<open>setHours(getHours() + 24)\<close>; the calendar is not modelled and the
  function that moves a time ahead is given.  \<^verbatim>\<open>JSON.stringify\<close> and \<^verbatim>\<open>JSON.parse\<close> are
  the platform's, the second with \<open>None\<close> for text that does not parse.  The store's
  client checks the values of a write against the schema and throws when they do not
  fit; the schema is not part of the code given here, and whether the two tables take
  the values of an assessment is given as well.
\<close>

record cacheEnv =
  plus24Hours :: "int \<Rightarrow> int"
  JSON_stringify :: "jsonValue \<Rightarrow> string"
  JSON_parse :: "string \<Rightarrow> jsonValue option"
  cacheTakes :: "AIRiskAssessment \<Rightarrow> bool"
  appointmentTakes :: "AIRiskAssessment \<Rightarrow> bool"

text \<open>
  \<^verbatim>\<open>getCachedAssessment\<close>.  A row that is missing or expired, and a row whose list
  columns do not parse (the exception is caught), give \<open>None\<close>.
\<close>

definition getCachedAssessment ::
  "cacheEnv \<Rightarrow> state \<Rightarrow> int \<Rightarrow> string \<Rightarrow> AIRiskAssessment option" where
  "getCachedAssessment env s now appointmentId =
     (case aiRiskCacheTable s appointmentId of
        None \<Rightarrow> None
      | Some cached \<Rightarrow>
          if now > expiresAt cached then None
          else
            (case JSON_parse env (cache_recommendations cached) of
               None \<Rightarrow> None
             | Some recs \<Rightarrow>
                 (case JSON_parse env (cache_riskFactors cached) of
                    None \<Rightarrow> None
                  | Some tags \<Rightarrow>
                      Some \<lparr>adjustedScore = cache_aiScore cached, adjustment = Fin 0,
                            ai_confidence = cache_confidence cached,
                            reasoning =
                              (case cache_reasoning cached of
                                 None \<Rightarrow> JNull
                               | Some t \<Rightarrow> JStr t),
                            recommendations = recs,
                            optimalContactTime =
                              JStr (orStr (cache_optimalContactTime cached) ''Morning''),
                            riskFactors = tags\<rparr>)))"

text \<open>
  What a text column is given: a string, or null; any other value is refused by the
  store's client (\<open>None\<close>).
\<close>

definition textColumn :: "jsonValue \<Rightarrow> string option option" where
  "textColumn v = (case v of JStr t \<Rightarrow> Some (Some t) | JNull \<Rightarrow> Some None | _ \<Rightarrow> None)"

text \<open>
  \<^verbatim>\<open>cacheAssessment\<close>: the row of the appointment is written, created or replaced.  A
  write that the store refuses is caught and logged, and the table stays as it was.
\<close>

definition cacheAssessment ::
  "cacheEnv \<Rightarrow> state \<Rightarrow> int \<Rightarrow> string \<Rightarrow> AIRiskAssessment \<Rightarrow> state" where
  "cacheAssessment env s now appointmentId assessment =
     (case textColumn (reasoning assessment) of
        None \<Rightarrow> s
      | Some reasoningText \<Rightarrow>
          (case textColumn (optimalContactTime assessment) of
             None \<Rightarrow> s
           | Some contactText \<Rightarrow>
               if cacheTakes env assessment then
                 s\<lparr>aiRiskCacheTable := (aiRiskCacheTable s)(appointmentId \<mapsto>
                      \<lparr>cache_aiScore = adjustedScore assessment,
                       cache_confidence = ai_confidence assessment,
                       cache_reasoning = reasoningText,
                       cache_recommendations = JSON_stringify env (recommendations assessment),
                       cache_riskFactors = JSON_stringify env (riskFactors assessment),
                       cache_optimalContactTime = contactText,
                       expiresAt = plus24Hours env now\<rparr>)\<rparr>
               else s))"

text \<open>\<^verbatim>\<open>updateAppointmentWithAI\<close>, with a refused write caught in the same way.\<close>

definition updateAppointmentWithAI ::
  "cacheEnv \<Rightarrow> state \<Rightarrow> string \<Rightarrow> AIRiskAssessment \<Rightarrow> state" where
  "updateAppointmentWithAI env s appointmentId assessment =
     (case textColumn (reasoning assessment) of
        None \<Rightarrow> s
      | Some reasoningText \<Rightarrow>
          if appointmentTakes env assessment then
            s\<lparr>appointments :=
                 map (\<lambda>x. if appt_id x = appointmentId
                           then x\<lparr>aiRiskScore := Some (adjustedScore assessment),
                                  aiConfidence := Some (ai_confidence assessment),
                                  aiReasoning := reasoningText,
                                  aiRecommendations :=
                                    Some (JSON_stringify env (recommendations assessment))\<rparr>
                           else x)
                   (appointments s)\<rparr>
          else s)"

text \<open>
  The adjustment service: whether it is enabled, and its client if it has one.  The
  client sees the patient, the appointment, the base result and the stored history.
\<close>

record aiRiskScoreService =
  isEnabled :: bool
  aiClient :: "(state \<Rightarrow> patient \<Rightarrow> appointment \<Rightarrow> RiskScoreResult \<Rightarrow> aiReply) option"

text \<open>
  \<^verbatim>\<open>calculateAIEnhancedRiskScore\<close>.  The result is the enhanced score, the new state
  and the number of calls made to the inference provider.
\<close>

definition calculateAIEnhancedRiskScore ::
  "aiRiskScoreService \<Rightarrow> (jsonValue \<Rightarrow> number) \<Rightarrow> cacheEnv \<Rightarrow> int \<Rightarrow> int \<Rightarrow> state \<Rightarrow> patient
     \<Rightarrow> appointment \<Rightarrow> EnhancedRiskScoreResult \<times> state \<times> nat" where
  "calculateAIEnhancedRiskScore svc readText env now sixMonthsAgo s p a =
     (let baseResult = calculateRiskScore (noShowHistoryTable s) sixMonthsAgo p a
      in case (if isEnabled svc then aiClient svc else None) of
           None \<Rightarrow> (baseOnly baseResult, s, 0)
         | Some client \<Rightarrow>
             (case getCachedAssessment env s now (appt_id a) of
                Some cached \<Rightarrow> (combineScores baseResult cached, s, 0)
              | None \<Rightarrow>
                  (case getAIAssessment readText baseResult (client s p a baseResult) of
                     Some assessment \<Rightarrow>
                       (combineScores baseResult assessment,
                        updateAppointmentWithAI env
                          (cacheAssessment env s now (appt_id a) assessment)
                          (appt_id a) assessment,
                        1)
                   | None \<Rightarrow> (baseOnly baseResult, s, 1))))"

section \<open>Example data\<close>

text \<open>
  A patient without a home, far from the clinic, without a phone, with a caseworker,
  and with four no-shows in the window; and a patient with a phone whose base score
  is 50.
\<close>

definition marcus :: patient where
  "marcus =
     \<lparr>patient_id = ''p1'', firstName = ''Marcus'', lastName = ''Johnson'',
      housingStatus = ''HOMELESS'', distanceFromClinic = Some 6, phoneNumber = None,
      address = None, caseWorkers = [\<lparr>cw_phoneNumber = ''+15550001''\<rparr>]\<rparr>"

definition carlos :: patient where
  "carlos =
     \<lparr>patient_id = ''p2'', firstName = ''Carlos'', lastName = ''Rivera'',
      housingStatus = ''UNSTABLY_HOUSED'', distanceFromClinic = Some 1,
      phoneNumber = Some ''+15552345678'', address = Some ''12 Oak St'', caseWorkers = []\<rparr>"

text \<open>A patient with a phone whose base score is 60.\<close>

definition dana :: patient where
  "dana =
     \<lparr>patient_id = ''p3'', firstName = ''Dana'', lastName = ''Lee'',
      housingStatus = ''HOMELESS'', distanceFromClinic = Some 3,
      phoneNumber = Some ''+15553456789'', address = None, caseWorkers = []\<rparr>"

definition noShows :: "noShowHistory list" where
  "noShows =
     [\<lparr>ns_patientId = ''p1'', ns_appointmentId = ''x1'', occurredAt = 100\<rparr>,
      \<lparr>ns_patientId = ''p1'', ns_appointmentId = ''x2'', occurredAt = 200\<rparr>,
      \<lparr>ns_patientId = ''p1'', ns_appointmentId = ''x3'', occurredAt = 300\<rparr>,
      \<lparr>ns_patientId = ''p1'', ns_appointmentId = ''x4'', occurredAt = 400\<rparr>,
      \<lparr>ns_patientId = ''p2'', ns_appointmentId = ''x5'', occurredAt = 400\<rparr>,
      \<lparr>ns_patientId = ''p2'', ns_appointmentId = ''x6'', occurredAt = 10\<rparr>]"

definition mainClinic :: clinic where
  "mainClinic = \<lparr>clinic_name = ''Mission Clinic'', clinic_address = ''1 Main St''\<rparr>"

definition appointmentOf :: "string \<Rightarrow> patient \<Rightarrow> appointment" where
  "appointmentOf i p =
     \<lparr>appt_id = i, appt_patient = p, appt_clinic = mainClinic,
      appointmentDate = hours 24 + minutes 10, appt_status = ''SCHEDULED'',
      riskScore = Some 100, needsRide = True, rideOfferSent = False,
      aiRiskScore = None, aiConfidence = None, aiReasoning = None,
      aiRecommendations = None\<rparr>"

definition assessmentWith :: "number \<Rightarrow> number \<Rightarrow> AIRiskAssessment" where
  "assessmentWith adjusted conf =
     \<lparr>adjustedScore = adjusted, adjustment = Fin 0, ai_confidence = conf,
      reasoning = JStr ''steady'', recommendations = JArr [],
      optimalContactTime = JStr ''Morning'', riskFactors = JArr []\<rparr>"

definition eagerReply :: aiResult where
  "eagerReply =
     \<lparr>raw_adjustedScore = Some (JNum (Fin 100)), raw_adjustment = Some (JNum (Fin 20)),
      raw_confidence = Some (JNum (Fin 90)),
      raw_reasoning = None, raw_recommendations = None, raw_optimalContactTime = None,
      raw_riskFactors = None\<rparr>"

text \<open>An inference provider that classifies every message as a decline.\<close>

definition decliningClient :: claudeClient where
  "decliningClient message ctx =
     ClaudeParsed \<lparr>cp_intent = DECLINE_RIDE, cp_confidence = 95 / 100,
                    cp_alternativePickupLocation = None, cp_preferredTime = None,
                    cp_reasoning = Some ''has other transport''\<rparr>"

text \<open>A gateway that delivers every message, and one in test mode.\<close>

definition liveTwilio :: twilioService where
  "liveTwilio =
     \<lparr>isTestMode = False, transport = (\<lambda>to body. Inr ''SM100''), testSid = ''TEST_0'',
      formatDate = (\<lambda>t. ''Monday, June 2''), formatTime = (\<lambda>t. ''9:00 AM'')\<rparr>"

definition testTwilio :: twilioService where
  "testTwilio = liveTwilio\<lparr>isTestMode := True\<rparr>"

text \<open>Two appointments, no ride, no message yet.\<close>

definition clinicState :: state where
  "clinicState =
     \<lparr>appointments = [appointmentOf ''a1'' marcus, appointmentOf ''a2'' carlos],
      rides = [], smsMessages = [], aiRiskCacheTable = Map.empty,
      noShowHistoryTable = noShows, mockRides = Map.empty\<rparr>"

text \<open>
  Carlos has a booked ride whose driver was last reported en route, so that the
  ride's stored status is DRIVER\_ASSIGNED; the provider now reports the arrival.
\<close>

definition carlosRide :: ride where
  "carlosRide =
     \<lparr>ride_id = ''r1'', ride_appointmentId = ''a2'', pickupLocation = ''12 Oak St'',
      dropoffLocation = ''1 Main St'', pickupTime = hours 23 + minutes 25,
      ride_status = ''DRIVER_ASSIGNED'', uberRideId = Some ''UBER_1'',
      estimatedCost = Some 12, driverName = Some ''Sarah M.'',
      vehicleInfo = Some ''Gray Honda Civic (7ABC123)'', driverLocation = None\<rparr>"

definition enRouteState :: state where
  "enRouteState = clinicState\<lparr>rides := [carlosRide]\<rparr>"

definition reportOf :: "string \<Rightarrow> uberRideResponse" where
  "reportOf st =
     \<lparr>uber_ride_id = ''UBER_1'', uber_status = st,
      uber_driver = Some \<lparr>driver_name = ''Sarah M.'', driver_vehicle = ''Gray Honda Civic'',
                          driver_license = ''7ABC123''\<rparr>,
      uber_pickup_time = hours 23 + minutes 25, uber_estimated_cost = 12,
      uber_current_location = None\<rparr>"

definition arrivedProvider :: "string \<Rightarrow> uberRideResponse option" where
  "arrivedProvider uid = (if uid = ''UBER_1'' then Some (reportOf ''arrived'') else None)"

text \<open>
  Carlos has been sent an offer for his appointment, and an assessment of that
  appointment is in the cache.
\<close>

definition cachedRow :: aIRiskCache where
  "cachedRow =
     \<lparr>cache_aiScore = Fin 70, cache_confidence = Fin 85, cache_reasoning = Some ''engaged'',
      cache_recommendations = ''[]'', cache_riskFactors = ''[]'',
      cache_optimalContactTime = Some ''Morning'', expiresAt = hours 24\<rparr>"

definition offerToCarlos :: sMSMessage where
  "offerToCarlos =
     \<lparr>sms_appointmentId = ''a2'', sms_phoneNumber = ''+15552345678'',
      sms_message = ''Need a free ride? Reply YES.'', sms_direction = OUTBOUND,
      sms_status = DELIVERED, sms_twilioSid = Some ''SM1''\<rparr>"

definition offeredState :: state where
  "offeredState =
     clinicState\<lparr>smsMessages := [offerToCarlos], aiRiskCacheTable := [''a2'' \<mapsto> cachedRow]\<rparr>"

definition demoBooking :: bookingEnv where
  "demoBooking =
     \<lparr>new_ride_id = ''r9'', new_uber_ride_id = ''UBER_9'', new_estimated_cost = 14\<rparr>"

definition fixedAnswer :: "string \<Rightarrow> appointment \<Rightarrow> string" where
  "fixedAnswer body a = ''The ride is completely free - no cost to you!''"

definition isoOf :: "int \<Rightarrow> string" where
  "isoOf t = ''2025-06-02T16:00:00.000Z''"

text \<open>
  The provider's store holding Carlos's ride with a given status, a state in which the
  ride is finished but has no provider identifier, and one whose ride carries an
  identifier the provider's store does not know.
\<close>

definition providerState :: "string \<Rightarrow> string \<Rightarrow> state" where
  "providerState stored reported =
     clinicState\<lparr>rides := [carlosRide\<lparr>ride_status := stored\<rparr>],
                 mockRides := [''UBER_1'' \<mapsto> reportOf reported]\<rparr>"

definition completedWithoutProvider :: state where
  "completedWithoutProvider =
     clinicState\<lparr>rides := [carlosRide\<lparr>ride_status := ''COMPLETED'', uberRideId := None\<rparr>]\<rparr>"

definition unknownToProvider :: state where
  "unknownToProvider =
     clinicState\<lparr>rides := [carlosRide\<lparr>ride_status := ''SCHEDULED'',
                                       uberRideId := Some ''DEMO_UBER_1''\<rparr>]\<rparr>"

section \<open>Auxiliary notions for the status-sync sweep\<close>

text \<open>
  A ride is settled with respect to the provider's reports when the sweep, on reading
  it, would compute the status it already has.
\<close>

definition settled :: "(string \<Rightarrow> uberRideResponse option) \<Rightarrow> ride \<Rightarrow> bool" where
  "settled provider r =
     (truthy (uberRideId r) \<longrightarrow>
        (case provider (orStr (uberRideId r) []) of
           None \<Rightarrow> True
         | Some us \<Rightarrow> newStatusOf us r = ride_status r))"

text \<open>A status-change notification whose old and new status are the same.\<close>

definition isNoOpUpdate :: "event \<Rightarrow> bool" where
  "isNoOpUpdate e = (case e of RIDE_STATUS_UPDATE i old new \<Rightarrow> old = new | _ \<Rightarrow> False)"

text \<open>Carlos's ride as booked, before the provider has reported anything.\<close>

definition scheduledState :: state where
  "scheduledState = clinicState\<lparr>rides := [carlosRide\<lparr>ride_status := ''SCHEDULED''\<rparr>]\<rparr>"

section \<open>Auxiliary notions for the adjustment layer\<close>

text \<open>
  The blend as the specification words it, \<^verbatim>\<open>round((base + adjusted) / 2)\<close>, computed
  exactly: the integer nearest to the mean, a half rounded upwards.
\<close>

definition exactRoundedMean :: "int \<Rightarrow> rat \<Rightarrow> int" where
  "exactRoundedMean base adjusted = \<lfloor>(of_int base + adjusted) / 2 + 1 / 2\<rfloor>"

text \<open>A number that lies between two bounds.  NaN lies between no bounds.\<close>

definition inBounds :: "rat \<Rightarrow> rat \<Rightarrow> number \<Rightarrow> bool" where
  "inBounds lo hi n = (jsLe (Fin lo) n \<and> jsLe n (Fin hi))"

text \<open>
  A field of the provider's reply that is absent or holds null, a boolean or a number.
  \<^verbatim>\<open>JSON.parse\<close> returns no NaN.
\<close>

definition numericOrAbsent :: "jsonValue option \<Rightarrow> bool" where
  "numericOrAbsent x =
     (case x of
        None \<Rightarrow> True
      | Some JNull \<Rightarrow> True
      | Some (JBool b) \<Rightarrow> True
      | Some (JNum n) \<Rightarrow> n \<noteq> NaN
      | Some (JStr t) \<Rightarrow> False
      | Some (JArr xs) \<Rightarrow> False
      | Some (JObj fs) \<Rightarrow> False)"

definition arrayOfAtMost :: "nat \<Rightarrow> jsonValue \<Rightarrow> bool" where
  "arrayOfAtMost n v = (case v of JArr xs \<Rightarrow> length xs \<le> n | _ \<Rightarrow> False)"

text \<open>The largest double below 1.\<close>

definition belowOne :: rat where
  "belowOne = 1 - 1 / 2 ^ 53"

text \<open>
  A reading of text as a number for the examples: the text \<^verbatim>\<open>high\<close> is not a numeral and
  reads as NaN; the other replies of the examples hold no text in a numeric field.
\<close>

definition readWords :: "jsonValue \<Rightarrow> number" where
  "readWords v = NaN"

text \<open>A reply whose adjusted score is the word \<^verbatim>\<open>high\<close>, with confidence 90.\<close>

definition wordyReply :: aiResult where
  "wordyReply =
     \<lparr>raw_adjustedScore = Some (JStr ''high''), raw_adjustment = None,
      raw_confidence = Some (JNum (Fin 90)), raw_reasoning = None,
      raw_recommendations = None, raw_optimalContactTime = None, raw_riskFactors = None\<rparr>"

section \<open>Properties of the risk scoring engine\<close>


lemma noShows_carlos: "getNoShowCount noShows 50 ''p2'' = 1"
  by (simp add: getNoShowCount_def noShows_def)













section \<open>Exact results of the rounding\<close>

lemma exponentOf_lower:
  assumes "0 < a"
  shows "2 powi exponentOf a \<le> a"
proof (cases "a \<ge> 1")
  case True
  then have n: "\<lfloor>a\<rfloor> > 0" by linarith
  from bitlen_bounds [OF n] have b: "2 ^ nat (bitlen \<lfloor>a\<rfloor> - 1) \<le> \<lfloor>a\<rfloor>" by blast
  from n have "bitlen \<lfloor>a\<rfloor> \<noteq> 0" by (simp add: bitlen_eq_zero_iff)
  with bitlen_nonneg [of "\<lfloor>a\<rfloor>"] have pos: "bitlen \<lfloor>a\<rfloor> - 1 \<ge> 0" by linarith
  have "(2::rat) powi (bitlen \<lfloor>a\<rfloor> - 1) = 2 ^ nat (bitlen \<lfloor>a\<rfloor> - 1)"
    using pos by (rule power_int_nonneg_exp)
  also have "\<dots> = of_int (2 ^ nat (bitlen \<lfloor>a\<rfloor> - 1))" by simp
  also have "\<dots> \<le> of_int \<lfloor>a\<rfloor>" using b by (simp only: of_int_le_iff)
  also have "\<dots> \<le> a" by simp
  finally show ?thesis using True by (simp add: exponentOf_def)
next
  case False
  with assms have b1: "1 / a > 1" by simp
  define m where "m = \<lceil>1 / a\<rceil>"
  from b1 have m2: "m - 1 > 0" unfolding m_def by linarith
  define j where "j = bitlen (m - 1)"
  from bitlen_bounds [OF m2] have "m - 1 < 2 ^ nat j" unfolding j_def by blast
  then have "m \<le> 2 ^ nat j" by linarith
  then have le: "(of_int m :: rat) \<le> of_int (2 ^ nat j)" by (simp only: of_int_le_iff)
  have "1 / a \<le> of_int m" unfolding m_def by simp
  also note le
  also have "(of_int (2 ^ nat j) :: rat) = 2 ^ nat j" by simp
  finally have "1 / a \<le> 2 ^ nat j" .
  with assms have "1 \<le> a * 2 ^ nat j" by (simp add: field_simps)
  then have "1 / 2 ^ nat j \<le> a" by (simp add: field_simps)
  moreover have "(2::rat) powi (- j) = 1 / 2 ^ nat j"
    using bitlen_nonneg [of "m - 1"] unfolding j_def
    by (simp add: power_int_minus_divide power_int_nonneg_exp)
  ultimately show ?thesis
    using False by (simp add: exponentOf_def m_def j_def)
qed

lemma roundHalfEven_of_int: "roundHalfEven (of_int n) = n"
  by (simp add: roundHalfEven_def)

text \<open>
  A value \<open>m * 2^t\<close> with fewer than 54 bits in \<open>m\<close> and \<open>t\<close> not below the smallest
  exponent is a double, and rounding returns it.
\<close>

lemma roundMagnitude_dyadic:
  assumes a: "a = of_int m * 2 powi t" and m: "0 < m" "m < 2 ^ 53" and t: "- 1074 \<le> t"
  shows "roundMagnitude a = a"
proof -
  have apos: "0 < a" using a m by simp
  define e where "e = max (exponentOf a) (- 1022)"
  define d where "d = t - (e - 52)"
  have "(of_int m :: rat) < of_int (2 ^ 53)" using m by (simp only: of_int_less_iff)
  then have "(of_int m :: rat) < 2 powi 53" by simp
  then have "a < 2 powi 53 * 2 powi t" unfolding a by simp
  also have "\<dots> = 2 powi (53 + t)" by (simp add: power_int_add)
  finally have upper: "a < 2 powi (53 + t)" .
  have "exponentOf a < 53 + t"
  proof (rule ccontr)
    assume "\<not> exponentOf a < 53 + t"
    then have "53 + t \<le> exponentOf a" by simp
    then have "(2::rat) powi (53 + t) \<le> 2 powi exponentOf a"
      by (rule power_int_increasing) simp
    also have "\<dots> \<le> a" using apos by (rule exponentOf_lower)
    finally show False using upper by simp
  qed
  with t have d: "0 \<le> d" unfolding e_def d_def by simp
  have q: "quantum a = 2 powi (e - 52)" unfolding quantum_def e_def ..
  have split: "(2::rat) powi t = 2 powi d * 2 powi (e - 52)"
    unfolding d_def by (simp flip: power_int_add)
  have whole: "(2::rat) powi d = of_int (2 ^ nat d)"
    using d by (simp add: power_int_nonneg_exp)
  have qpos: "(2::rat) powi (e - 52) \<noteq> 0" by simp
  have "a / quantum a = of_int m * 2 powi d * 2 powi (e - 52) / 2 powi (e - 52)"
    unfolding q by (simp only: a split mult.assoc)
  also have "\<dots> = of_int m * 2 powi d" using qpos by simp
  also have "\<dots> = of_int (m * 2 ^ nat d)" unfolding whole by (simp only: of_int_mult)
  finally have "roundHalfEven (a / quantum a) = m * 2 ^ nat d"
    by (simp only: roundHalfEven_of_int)
  then have "roundMagnitude a = of_int (m * 2 ^ nat d) * 2 powi (e - 52)"
    unfolding roundMagnitude_def q by (rule arg_cong)
  also have "\<dots> = of_int m * (2 powi d * 2 powi (e - 52))"
    unfolding whole by (simp only: of_int_mult mult.assoc)
  also have "\<dots> = a" unfolding a split ..
  finally show ?thesis .
qed

lemma roundToDouble_exact:
  assumes "roundMagnitude \<bar>x\<bar> = \<bar>x\<bar>" and "\<bar>x\<bar> < overflowBound"
  shows "roundToDouble x = Fin x"
proof (cases "x = 0")
  case True
  then show ?thesis by (simp add: roundToDouble_def)
next
  case False
  from assms(2) have small: "\<not> overflowBound \<le> \<bar>x\<bar>" by simp
  show ?thesis
  proof (cases "x > 0")
    case True
    with False small show ?thesis
      unfolding roundToDouble_def assms(1) by simp
  next
    case neg: False
    with False have "- \<bar>x\<bar> = x" by simp
    with False neg small show ?thesis
      unfolding roundToDouble_def assms(1) by simp
  qed
qed

lemma two_53_below_overflow: "(2::rat) powi 53 \<le> overflowBound"
  unfolding overflowBound_def by (rule power_int_increasing) simp_all

lemma roundToDouble_dyadic:
  assumes x: "x = of_int k * 2 powi t" and k: "\<bar>k\<bar> < 2 ^ 53" and t: "- 1074 \<le> t" "t \<le> 0"
  shows "roundToDouble x = Fin x"
proof (cases "k = 0")
  case True
  with x show ?thesis by (simp add: roundToDouble_def)
next
  case False
  then have pos: "0 < \<bar>k\<bar>" by simp
  have ax: "\<bar>x\<bar> = of_int \<bar>k\<bar> * 2 powi t"
    unfolding x by (simp add: abs_mult)
  have r: "roundMagnitude \<bar>x\<bar> = \<bar>x\<bar>"
    using ax pos k t(1) by (rule roundMagnitude_dyadic)
  have "(2::rat) powi t \<le> 2 powi 0"
    using t(2) by (intro power_int_increasing) simp_all
  then have le1: "(2::rat) powi t \<le> 1" by simp
  have "(of_int \<bar>k\<bar> :: rat) < of_int (2 ^ 53)" using k by (simp only: of_int_less_iff)
  then have lt: "(of_int \<bar>k\<bar> :: rat) < 2 powi 53" by simp
  have "\<bar>x\<bar> \<le> of_int \<bar>k\<bar> * 1"
    unfolding ax using le1 by (intro mult_left_mono) simp_all
  also have "\<dots> < 2 powi 53" using lt by simp
  also note two_53_below_overflow
  finally have "\<bar>x\<bar> < overflowBound" .
  with r show ?thesis by (rule roundToDouble_exact)
qed

text \<open>The double nearest to one tenth.\<close>

lemma roundToDouble_tenth: "roundToDouble (1 / 10) = Fin (3602879701896397 / 2 ^ 55)"
  by code_simp

lemma roundToDouble_int: "\<bar>k\<bar> < 2 ^ 53 \<Longrightarrow> roundToDouble (of_int k) = Fin (of_int k)"
  using roundToDouble_dyadic [of "of_int k" k 0] by simp

lemma roundToDouble_half_int:
  "\<bar>k\<bar> < 2 ^ 53 \<Longrightarrow> roundToDouble (of_int k / 2) = Fin (of_int k / 2)"
  using roundToDouble_dyadic [of "of_int k / 2" k "- 1"] by simp

section \<open>Properties of the adjustment layer\<close>

lemma carlos_base_score:
  "score (calculateRiskScore noShows 50 carlos (appointmentOf ''a2'' carlos)) = 50"
  by (simp add: calculateRiskScore_def addFactor_def getHousingPoints_def
      getDistancePoints_def getPhonePoints_def getNoShowPoints_def noShows_carlos
      carlos_def truthy_def HOMELESS_def UNSTABLY_HOUSED_def HOUSED_def Let_def)

lemma noShows_dana: "getNoShowCount noShows 50 ''p3'' = 0"
  by (simp add: getNoShowCount_def noShows_def)

lemma dana_base_score:
  "score (calculateRiskScore noShows 50 dana (appointmentOf ''a3'' dana)) = 60"
  by (simp add: calculateRiskScore_def addFactor_def getHousingPoints_def
      getDistancePoints_def getPhonePoints_def getNoShowPoints_def noShows_dana
      dana_def truthy_def HOMELESS_def UNSTABLY_HOUSED_def HOUSED_def Let_def)

lemma jsGe_80_50: "jsGe c (Fin 80) \<Longrightarrow> jsGe c (Fin 50)"
  by (cases c) (simp_all add: jsGe_def)

text \<open>
  With an integer adjusted score the sum and its half are doubles, so the code's
  rounded mean is the exact one.
\<close>

lemma rounded_mean_of_integers:
  assumes "\<bar>s + k\<bar> < 2 ^ 53"
  shows "Math_round (jsHalve (jsAdd (ofScore s) (Fin (of_int k))))
    = Fin (of_int (exactRoundedMean s (of_int k)))"
proof -
  have "jsAdd (ofScore s) (Fin (of_int k)) = roundToDouble (of_int (s + k))"
    by (simp add: ofScore_def)
  also have "\<dots> = Fin (of_int (s + k))"
    using assms by (rule roundToDouble_int)
  finally have sum: "jsAdd (ofScore s) (Fin (of_int k)) = Fin (of_int (s + k))" .
  have "jsHalve (Fin (of_int (s + k))) = roundToDouble (of_int (s + k) / 2)"
    by (simp add: jsHalve_def)
  also have "\<dots> = Fin (of_int (s + k) / 2)"
    using assms by (rule roundToDouble_half_int)
  finally have half: "jsHalve (Fin (of_int (s + k))) = Fin (of_int (s + k) / 2)" .
  show ?thesis
    unfolding sum half by (simp add: Math_round_def exactRoundedMean_def)
qed

lemma example_mean: "Math_round (jsHalve (jsAdd (ofScore 50) (Fin 70))) = Fin 60"
proof -
  have "Math_round (jsHalve (jsAdd (ofScore 50) (Fin (of_int 70))))
      = Fin (of_int (exactRoundedMean 50 (of_int 70)))"
    by (rule rounded_mean_of_integers) simp
  moreover have "exactRoundedMean 50 (of_int 70) = 60"
    by code_simp
  ultimately show ?thesis by simp
qed

lemma example_mean_normal: "Math_round (jsHalve (roundToDouble 120)) = Fin 60"
  using example_mean by (simp add: ofScore_def)

lemma assessmentWith_fields:
  "adjustedScore (assessmentWith a c) = a" "ai_confidence (assessmentWith a c) = c"
  by (simp_all add: assessmentWith_def)

lemma category_of_final:
  "final_category (combineScores b ai) =
     (if jsLe (finalScore (combineScores b ai)) (Fin 30) then LOW
      else if jsLe (finalScore (combineScores b ai)) (Fin 60) then MEDIUM
      else HIGH)"
  by (simp add: combineScores_def Let_def)

lemma finalScore_combineScores:
  "finalScore (combineScores b ai) =
     (if jsGe (ai_confidence ai) (Fin 80) then adjustedScore ai
      else if jsGe (ai_confidence ai) (Fin 50)
        then Math_round (jsHalve (jsAdd (ofScore (score b)) (adjustedScore ai)))
      else ofScore (score b))"
  by (simp add: combineScores_def Let_def)

text \<open>
  C2, as the code has it.  For every base result and every assessment with confidence
  \<open>c\<close>: from 80 the final score is the adjusted score; from 50 and below 80 it is
  \<^verbatim>\<open>Math.round\<close> of the half of the sum of the base and the adjusted score, each
  operation on doubles, and whenever the adjusted score is an integer this is the mean
  rounded to the nearest integer (a half upwards); when the confidence is not at least
  50 (NaN included) it is the base score.  The category is recomputed from the final
  score with the comparisons of the base engine: LOW up to 30, MEDIUM above 30 and up
  to 60, HIGH otherwise, which for an integer final score is the base engine's
  category of it.  With base 50 and adjusted 70, confidence 85 gives 70, confidence 60
  gives 60 and confidence 30 gives 50.
\<close>

theorem combineScores_blends_by_confidence:
  "let r = combineScores b ai; c = ai_confidence ai
   in (jsGe c (Fin 80) \<longrightarrow> finalScore r = adjustedScore ai)
      \<and> (jsGe c (Fin 50) \<and> \<not> jsGe c (Fin 80) \<longrightarrow>
           finalScore r = Math_round (jsHalve (jsAdd (ofScore (score b)) (adjustedScore ai)))
           \<and> (\<forall>k. adjustedScore ai = Fin (of_int k) \<and> \<bar>score b + k\<bar> < 2 ^ 53 \<longrightarrow>
                 finalScore r = Fin (of_int (exactRoundedMean (score b) (of_int k)))))
      \<and> (\<not> jsGe c (Fin 50) \<longrightarrow> finalScore r = ofScore (score b))
      \<and> (final_category r = LOW \<longleftrightarrow> jsLe (finalScore r) (Fin 30))
      \<and> (final_category r = MEDIUM \<longleftrightarrow>
           \<not> jsLe (finalScore r) (Fin 30) \<and> jsLe (finalScore r) (Fin 60))
      \<and> (final_category r = HIGH \<longleftrightarrow> \<not> jsLe (finalScore r) (Fin 60))
      \<and> (\<forall>k. finalScore r = Fin (of_int k) \<longrightarrow> final_category r = getRiskCategory k)
      \<and> (score b = 50 \<and> adjustedScore ai = Fin 70 \<longrightarrow>
           (c = Fin 85 \<longrightarrow> finalScore r = Fin 70) \<and> (c = Fin 60 \<longrightarrow> finalScore r = Fin 60)
           \<and> (c = Fin 30 \<longrightarrow> finalScore r = Fin 50))"
proof -
  let ?r = "combineScores b ai"
  let ?c = "ai_confidence ai"
  have high: "jsGe ?c (Fin 80) \<longrightarrow> finalScore ?r = adjustedScore ai"
    by (simp add: finalScore_combineScores)
  have mid: "jsGe ?c (Fin 50) \<and> \<not> jsGe ?c (Fin 80) \<longrightarrow>
      finalScore ?r = Math_round (jsHalve (jsAdd (ofScore (score b)) (adjustedScore ai)))
      \<and> (\<forall>k. adjustedScore ai = Fin (of_int k) \<and> \<bar>score b + k\<bar> < 2 ^ 53 \<longrightarrow>
            finalScore ?r = Fin (of_int (exactRoundedMean (score b) (of_int k))))"
  proof (intro impI conjI allI)
    assume band: "jsGe ?c (Fin 50) \<and> \<not> jsGe ?c (Fin 80)"
    then show eq: "finalScore ?r
        = Math_round (jsHalve (jsAdd (ofScore (score b)) (adjustedScore ai)))"
      by (simp add: finalScore_combineScores)
    fix k
    assume k: "adjustedScore ai = Fin (of_int k) \<and> \<bar>score b + k\<bar> < 2 ^ 53"
    then have "Math_round (jsHalve (jsAdd (ofScore (score b)) (Fin (of_int k))))
        = Fin (of_int (exactRoundedMean (score b) (of_int k)))"
      by (intro rounded_mean_of_integers) simp
    with eq k show "finalScore ?r = Fin (of_int (exactRoundedMean (score b) (of_int k)))"
      by simp
  qed
  have low: "\<not> jsGe ?c (Fin 50) \<longrightarrow> finalScore ?r = ofScore (score b)"
    using jsGe_80_50 [of ?c] by (auto simp: finalScore_combineScores)
  have cat1: "final_category ?r = LOW \<longleftrightarrow> jsLe (finalScore ?r) (Fin 30)"
    by (simp add: category_of_final)
  have cat2: "final_category ?r = MEDIUM \<longleftrightarrow>
      \<not> jsLe (finalScore ?r) (Fin 30) \<and> jsLe (finalScore ?r) (Fin 60)"
    by (simp add: category_of_final)
  have cat3: "final_category ?r = HIGH \<longleftrightarrow> \<not> jsLe (finalScore ?r) (Fin 60)"
  proof (cases "finalScore ?r")
    case (Fin x)
    then show ?thesis by (auto simp: category_of_final)
  qed (simp_all add: category_of_final)
  have cat4: "\<forall>k. finalScore ?r = Fin (of_int k) \<longrightarrow> final_category ?r = getRiskCategory k"
  proof (intro allI impI)
    fix k
    assume "finalScore ?r = Fin (of_int k)"
    then show "final_category ?r = getRiskCategory k"
      by (simp add: category_of_final getRiskCategory_def)
  qed
  have ex: "score b = 50 \<and> adjustedScore ai = Fin 70 \<longrightarrow>
      (?c = Fin 85 \<longrightarrow> finalScore ?r = Fin 70) \<and> (?c = Fin 60 \<longrightarrow> finalScore ?r = Fin 60)
      \<and> (?c = Fin 30 \<longrightarrow> finalScore ?r = Fin 50)"
    by (simp add: finalScore_combineScores jsGe_def example_mean_normal ofScore_def)
  from high mid low cat1 cat2 cat3 cat4 ex show ?thesis
    unfolding Let_def by blast
qed

theorem combineScores_blends_by_confidence_witness:
  "finalScore (combineScores (calculateRiskScore noShows 50 carlos (appointmentOf ''a2'' carlos))
      (assessmentWith (Fin 70) (Fin 85))) = Fin 70
   \<and> finalScore (combineScores (calculateRiskScore noShows 50 carlos (appointmentOf ''a2'' carlos))
      (assessmentWith (Fin 70) (Fin 60))) = Fin 60
   \<and> finalScore (combineScores (calculateRiskScore noShows 50 carlos (appointmentOf ''a2'' carlos))
      (assessmentWith (Fin 70) (Fin 30))) = Fin 50
   \<and> final_category (combineScores (calculateRiskScore noShows 50 carlos (appointmentOf ''a2'' carlos))
      (assessmentWith (Fin 70) (Fin 85))) = HIGH"
proof -
  let ?b = "calculateRiskScore noShows 50 carlos (appointmentOf ''a2'' carlos)"
  have ex: "score ?b = 50 \<and> adjustedScore (assessmentWith (Fin 70) c) = Fin 70 \<longrightarrow>
      (ai_confidence (assessmentWith (Fin 70) c) = Fin 85 \<longrightarrow>
         finalScore (combineScores ?b (assessmentWith (Fin 70) c)) = Fin 70)
      \<and> (ai_confidence (assessmentWith (Fin 70) c) = Fin 60 \<longrightarrow>
         finalScore (combineScores ?b (assessmentWith (Fin 70) c)) = Fin 60)
      \<and> (ai_confidence (assessmentWith (Fin 70) c) = Fin 30 \<longrightarrow>
         finalScore (combineScores ?b (assessmentWith (Fin 70) c)) = Fin 50)" for c
    using combineScores_blends_by_confidence [of ?b "assessmentWith (Fin 70) c"]
    unfolding Let_def by blast
  have cat: "\<forall>k. finalScore (combineScores ?b (assessmentWith (Fin 70) (Fin 85))) = Fin (of_int k)
      \<longrightarrow> final_category (combineScores ?b (assessmentWith (Fin 70) (Fin 85))) = getRiskCategory k"
    using combineScores_blends_by_confidence [of ?b "assessmentWith (Fin 70) (Fin 85)"]
    unfolding Let_def by blast
  have f85: "finalScore (combineScores ?b (assessmentWith (Fin 70) (Fin 85))) = Fin 70"
    using ex [of "Fin 85"] by (simp add: carlos_base_score assessmentWith_fields)
  have f60: "finalScore (combineScores ?b (assessmentWith (Fin 70) (Fin 60))) = Fin 60"
    using ex [of "Fin 60"] by (simp add: carlos_base_score assessmentWith_fields)
  have f30: "finalScore (combineScores ?b (assessmentWith (Fin 70) (Fin 30))) = Fin 50"
    using ex [of "Fin 30"] by (simp add: carlos_base_score assessmentWith_fields)
  from f85 have "finalScore (combineScores ?b (assessmentWith (Fin 70) (Fin 85))) = Fin (of_int 70)"
    by simp
  with cat have "final_category (combineScores ?b (assessmentWith (Fin 70) (Fin 85)))
      = getRiskCategory 70"
    by blast
  then have high: "final_category (combineScores ?b (assessmentWith (Fin 70) (Fin 85))) = HIGH"
    by (simp add: getRiskCategory_def)
  from f85 f60 f30 high show ?thesis
    by blast
qed

text \<open>
  C2 as stated fails.  The base score is 60, the adjusted score is the largest double
  below 1 and the confidence is 60.  The sum of the two scores is not a double and
  rounds to 61, so the code's final score is 31 and the category MEDIUM, while the mean
  of 60 and the adjusted score, rounded to the nearest integer, is 30, which is LOW.
\<close>

theorem rounded_mean_of_doubles_differs:
  "score (calculateRiskScore noShows 50 dana (appointmentOf ''a3'' dana)) = 60
   \<and> roundToDouble belowOne = Fin belowOne
   \<and> finalScore (combineScores (calculateRiskScore noShows 50 dana (appointmentOf ''a3'' dana))
        (assessmentWith (Fin belowOne) (Fin 60))) = Fin 31
   \<and> final_category (combineScores (calculateRiskScore noShows 50 dana (appointmentOf ''a3'' dana))
        (assessmentWith (Fin belowOne) (Fin 60))) = MEDIUM
   \<and> exactRoundedMean 60 belowOne = 30
   \<and> getRiskCategory 30 = LOW"
proof -
  have double: "roundToDouble belowOne = Fin belowOne"
    by code_simp
  have code: "Math_round (jsHalve (jsAdd (ofScore 60) (Fin belowOne))) = Fin 31"
    by code_simp
  have exact: "exactRoundedMean 60 belowOne = 30"
    by code_simp
  have final: "finalScore (combineScores
        (calculateRiskScore noShows 50 dana (appointmentOf ''a3'' dana))
        (assessmentWith (Fin belowOne) (Fin 60))) = Fin 31"
    by (simp add: finalScore_combineScores dana_base_score assessmentWith_def jsGe_def code)
  have cat: "final_category (combineScores
        (calculateRiskScore noShows 50 dana (appointmentOf ''a3'' dana))
        (assessmentWith (Fin belowOne) (Fin 60))) = MEDIUM"
    unfolding category_of_final final by simp
  show ?thesis
    using dana_base_score double final cat exact by (simp add: getRiskCategory_def)
qed

lemma clamp_inBounds:
  "lo \<le> hi \<Longrightarrow> n \<noteq> NaN \<Longrightarrow> inBounds lo hi (Math_max (Fin lo) (Math_min (Fin hi) n))"
  by (cases n) (auto simp: inBounds_def Math_max_def Math_min_def)

lemma clamp_NaN_or_inBounds:
  "lo \<le> hi \<Longrightarrow>
     Math_max (Fin lo) (Math_min (Fin hi) n) = NaN
     \<or> inBounds lo hi (Math_max (Fin lo) (Math_min (Fin hi) n))"
  by (cases n) (auto simp: inBounds_def Math_max_def Math_min_def)

lemma toNumber_numeric:
  "numericOrAbsent x \<Longrightarrow> d \<noteq> NaN \<Longrightarrow> toNumber readText (orJson x (JNum d)) \<noteq> NaN"
  by (auto simp: numericOrAbsent_def orJson_def toNumber_def truthyJson_def
      split: option.splits jsonValue.splits)

lemma firstFive_atMost: "arrayOfAtMost 5 (firstFive x)"
  by (auto simp: arrayOfAtMost_def firstFive_def split: option.splits jsonValue.splits)

text \<open>
  C9, as the code has it.  Every payload that \<^verbatim>\<open>getAIAssessment\<close> returns has at most
  five recommendations and at most five key-factor tags.  Its adjusted score is from 0
  to 100, its adjustment from -20 to 20 and its confidence from 0 to 100 whenever the
  provider's field is absent or holds a number, a boolean or null; for any reply each
  of the three is within its bounds or NaN.  Each field is clamped on its own: nothing
  ties the adjusted score to the base score.
\<close>

theorem getAIAssessment_payload_ranges:
  "case getAIAssessment readText b reply of
     None \<Rightarrow> reply = ApiFailure \<or> reply = NonTextContent \<or> reply = UnparsableText
   | Some x \<Rightarrow>
       arrayOfAtMost 5 (recommendations x) \<and> arrayOfAtMost 5 (riskFactors x)
       \<and> (adjustedScore x = NaN \<or> inBounds 0 100 (adjustedScore x))
       \<and> (adjustment x = NaN \<or> inBounds (- 20) 20 (adjustment x))
       \<and> (ai_confidence x = NaN \<or> inBounds 0 100 (ai_confidence x))
       \<and> (\<forall>r. reply = ParsedJson r \<longrightarrow>
             (numericOrAbsent (raw_adjustedScore r) \<longrightarrow> inBounds 0 100 (adjustedScore x))
             \<and> (numericOrAbsent (raw_adjustment r) \<longrightarrow> inBounds (- 20) 20 (adjustment x))
             \<and> (numericOrAbsent (raw_confidence r) \<longrightarrow> inBounds 0 100 (ai_confidence x)))"
proof (cases reply)
  case (ParsedJson r)
  have a: "numericOrAbsent (raw_adjustedScore r) \<longrightarrow>
      inBounds 0 100 (Math_max (Fin 0) (Math_min (Fin 100)
        (toNumber readText (orJson (raw_adjustedScore r) (JNum (ofScore (score b)))))))"
    by (intro impI clamp_inBounds toNumber_numeric) (simp_all add: ofScore_def)
  have d: "numericOrAbsent (raw_adjustment r) \<longrightarrow>
      inBounds (- 20) 20 (Math_max (Fin (- 20)) (Math_min (Fin 20)
        (toNumber readText (orJson (raw_adjustment r) (JNum (Fin 0))))))"
    by (intro impI clamp_inBounds toNumber_numeric) simp_all
  have c: "numericOrAbsent (raw_confidence r) \<longrightarrow>
      inBounds 0 100 (Math_max (Fin 0) (Math_min (Fin 100)
        (toNumber readText (orJson (raw_confidence r) (JNum (Fin 50))))))"
    by (intro impI clamp_inBounds toNumber_numeric) simp_all
  have a': "Math_max (Fin 0) (Math_min (Fin 100)
        (toNumber readText (orJson (raw_adjustedScore r) (JNum (ofScore (score b)))))) = NaN
      \<or> inBounds 0 100 (Math_max (Fin 0) (Math_min (Fin 100)
        (toNumber readText (orJson (raw_adjustedScore r) (JNum (ofScore (score b)))))))"
    by (rule clamp_NaN_or_inBounds) simp
  have d': "Math_max (Fin (- 20)) (Math_min (Fin 20)
        (toNumber readText (orJson (raw_adjustment r) (JNum (Fin 0))))) = NaN
      \<or> inBounds (- 20) 20 (Math_max (Fin (- 20)) (Math_min (Fin 20)
        (toNumber readText (orJson (raw_adjustment r) (JNum (Fin 0))))))"
    by (rule clamp_NaN_or_inBounds) simp
  have c': "Math_max (Fin 0) (Math_min (Fin 100)
        (toNumber readText (orJson (raw_confidence r) (JNum (Fin 50))))) = NaN
      \<or> inBounds 0 100 (Math_max (Fin 0) (Math_min (Fin 100)
        (toNumber readText (orJson (raw_confidence r) (JNum (Fin 50))))))"
    by (rule clamp_NaN_or_inBounds) simp
  from a d c a' d' c' show ?thesis
    unfolding ParsedJson by (simp add: getAIAssessment_def firstFive_atMost)
qed (simp_all add: getAIAssessment_def)

theorem getAIAssessment_payload_ranges_witness:
  "map_option adjustedScore
       (getAIAssessment readWords (calculateRiskScore noShows 50 carlos (appointmentOf ''a2'' carlos))
          (ParsedJson eagerReply)) = Some (Fin 100)
   \<and> inBounds 0 100 (Fin 100) \<and> inBounds (- 20) 20 (Fin 20) \<and> inBounds 0 100 (Fin 90)"
  using getAIAssessment_payload_ranges
    [where readText = readWords
       and b = "calculateRiskScore noShows 50 carlos (appointmentOf ''a2'' carlos)"
       and reply = "ParsedJson eagerReply"]
  by (simp add: carlos_base_score getAIAssessment_def eagerReply_def orJson_def truthyJson_def
      toNumber_def Math_max_def Math_min_def numericOrAbsent_def)

text \<open>
  C9 as stated fails: with base score 50 the provider's adjusted score 100 is kept,
  50 away from the base, while the adjustment field is 20.
\<close>

theorem adjusted_score_not_within_20_of_base:
  "score (calculateRiskScore noShows 50 carlos (appointmentOf ''a2'' carlos)) = 50
   \<and> map_option adjustedScore
       (getAIAssessment readWords (calculateRiskScore noShows 50 carlos (appointmentOf ''a2'' carlos))
          (ParsedJson eagerReply)) = Some (Fin 100)
   \<and> map_option adjustment
       (getAIAssessment readWords (calculateRiskScore noShows 50 carlos (appointmentOf ''a2'' carlos))
          (ParsedJson eagerReply)) = Some (Fin 20)"
  by (simp add: carlos_base_score getAIAssessment_def eagerReply_def orJson_def truthyJson_def
      toNumber_def Math_max_def Math_min_def)

text \<open>
  A field that holds text which is no numeral passes the clamp as NaN: the adjusted
  score of the payload is NaN, and with confidence 90 the final score is NaN and the
  category HIGH, since both comparisons with NaN are false.
\<close>

lemma non_numeric_score_passes_as_NaN:
  "map_option adjustedScore
       (getAIAssessment readWords (calculateRiskScore noShows 50 carlos (appointmentOf ''a2'' carlos))
          (ParsedJson wordyReply)) = Some NaN
   \<and> map_option (\<lambda>x. finalScore
          (combineScores (calculateRiskScore noShows 50 carlos (appointmentOf ''a2'' carlos)) x))
       (getAIAssessment readWords (calculateRiskScore noShows 50 carlos (appointmentOf ''a2'' carlos))
          (ParsedJson wordyReply)) = Some NaN
   \<and> map_option (\<lambda>x. final_category
          (combineScores (calculateRiskScore noShows 50 carlos (appointmentOf ''a2'' carlos)) x))
       (getAIAssessment readWords (calculateRiskScore noShows 50 carlos (appointmentOf ''a2'' carlos))
          (ParsedJson wordyReply)) = Some HIGH"
  by (simp add: getAIAssessment_def wordyReply_def orJson_def truthyJson_def toNumber_def
      readWords_def Math_max_def Math_min_def finalScore_combineScores category_of_final
      jsGe_def)

section \<open>Properties of the intent resolver\<close>

lemma ruleBasedParsing_yes:
  "ruleBasedParsing ''yes'' = ruleResult CONFIRM_RIDE (95 / 100) None None ''yes''"
  by code_simp

lemma ruleBasedParsing_friend:
  "ruleBasedParsing ''no my friend is taking me'' =
     ruleResult UNKNOWN (3 / 10) None None ''no my friend is taking me''"
  by code_simp

text \<open>A no-break space before and a paragraph separator after the text are trimmed.\<close>

lemma ruleBasedParsing_unicode_space:
  "intent (ruleBasedParsing
      ([CHR 0xC2, CHR 0xA0] @ ''Yes  please!'' @ [CHR 0xE2, CHR 0x80, CHR 0xA9])) = CONFIRM_RIDE"
  by code_simp

lemma parsePatientResponse_short_circuit:
  "confidence (ruleBasedParsing msg) \<ge> 9 / 10 \<Longrightarrow>
     parsePatientResponse client msg ctx = (ruleBasedParsing msg, 0)"
  by (simp add: parsePatientResponse_def Let_def)

lemma parsePatientResponse_ambiguous:
  "\<not> confidence (ruleBasedParsing msg) \<ge> 9 / 10 \<Longrightarrow>
     parsePatientResponse client msg ctx =
       (case client of
          None \<Rightarrow> (ruleBasedParsing msg, 0)
        | Some c \<Rightarrow>
            (case c msg ctx of
               ClaudeFailure \<Rightarrow> (ruleBasedParsing msg, 1)
             | ClaudeNonText \<Rightarrow> (ruleBasedParsing msg, 1)
             | ClaudeUnparsable \<Rightarrow> (ruleBasedParsing msg, 1)
             | ClaudeParsed p \<Rightarrow>
                 (\<lparr>intent = cp_intent p, confidence = cp_confidence p,
                   alternativePickupLocation = falsyToNone (cp_alternativePickupLocation p),
                   preferredTime = falsyToNone (cp_preferredTime p),
                   rawMessage = msg, pr_reasoning = cp_reasoning p\<rparr>, 1)))"
  by (simp add: parsePatientResponse_def parseWithClaude_def Let_def
      split: option.splits claudeReply.splits)

text \<open>
  C4, as the code has it.  On the input "yes" the resolver returns CONFIRM with
  confidence 0.95 and makes no call to the external provider; whenever the
  deterministic tier's confidence is at least 0.9 its result is returned with no
  call.  On the input "no my friend is taking me" the deterministic tier matches no
  pattern (UNKNOWN, confidence 0.3): without a provider that is the result, with no
  call; with a provider exactly one call is made, and the result is the provider's
  classification when its answer parses and the deterministic result otherwise.
\<close>

theorem intent_resolver_tiers:
  "parsePatientResponse client ''yes'' ctx = (ruleResult CONFIRM_RIDE (95 / 100) None None ''yes'', 0)
   \<and> (confidence (ruleBasedParsing msg) \<ge> 9 / 10 \<longrightarrow>
        parsePatientResponse client msg ctx = (ruleBasedParsing msg, 0))
   \<and> ruleBasedParsing ''no my friend is taking me'' =
        ruleResult UNKNOWN (3 / 10) None None ''no my friend is taking me''
   \<and> parsePatientResponse None ''no my friend is taking me'' ctx =
        (ruleResult UNKNOWN (3 / 10) None None ''no my friend is taking me'', 0)
   \<and> snd (parsePatientResponse (Some c) ''no my friend is taking me'' ctx) = 1
   \<and> (c ''no my friend is taking me'' ctx = ClaudeParsed p \<longrightarrow>
        intent (fst (parsePatientResponse (Some c) ''no my friend is taking me'' ctx)) = cp_intent p
        \<and> confidence (fst (parsePatientResponse (Some c) ''no my friend is taking me'' ctx))
            = cp_confidence p)
   \<and> ((\<forall>q. c ''no my friend is taking me'' ctx \<noteq> ClaudeParsed q) \<longrightarrow>
        fst (parsePatientResponse (Some c) ''no my friend is taking me'' ctx) =
          ruleResult UNKNOWN (3 / 10) None None ''no my friend is taking me'')"
proof -
  have yes: "confidence (ruleBasedParsing ''yes'') \<ge> 9 / 10"
    by (simp add: ruleBasedParsing_yes ruleResult_def)
  have friend: "\<not> confidence (ruleBasedParsing ''no my friend is taking me'') \<ge> 9 / 10"
    by (simp add: ruleBasedParsing_friend ruleResult_def)
  show ?thesis
    using parsePatientResponse_short_circuit [OF yes, of client ctx]
      parsePatientResponse_short_circuit [of msg client ctx]
      parsePatientResponse_ambiguous [OF friend, of None ctx]
      parsePatientResponse_ambiguous [OF friend, of "Some c" ctx]
    by (cases "c ''no my friend is taking me'' ctx")
      (simp_all add: ruleBasedParsing_yes ruleBasedParsing_friend)
qed

theorem intent_resolver_tiers_witness:
  "parsePatientResponse (Some decliningClient) ''yes'' None
     = (ruleResult CONFIRM_RIDE (95 / 100) None None ''yes'', 0)
   \<and> snd (parsePatientResponse (Some decliningClient) ''no my friend is taking me'' None) = 1
   \<and> intent (fst (parsePatientResponse (Some decliningClient) ''no my friend is taking me'' None))
       = DECLINE_RIDE
   \<and> confidence (fst (parsePatientResponse (Some decliningClient) ''no my friend is taking me'' None))
       = 95 / 100"
  using intent_resolver_tiers [of "Some decliningClient" None "''yes''" decliningClient
      "\<lparr>cp_intent = DECLINE_RIDE, cp_confidence = 95 / 100,
        cp_alternativePickupLocation = None, cp_preferredTime = None,
        cp_reasoning = Some ''has other transport''\<rparr>"]
  by (simp add: decliningClient_def ruleBasedParsing_yes ruleResult_def)

text \<open>
  C4 as stated fails: with no provider configured the resolver answers "no my friend
  is taking me" with UNKNOWN at confidence 0.3, not with DECLINE at 0.9 or more.
\<close>

theorem friend_message_is_unknown_without_provider:
  "intent (fst (parsePatientResponse None ''no my friend is taking me'' None)) = UNKNOWN
   \<and> confidence (fst (parsePatientResponse None ''no my friend is taking me'' None)) = 3 / 10
   \<and> \<not> (intent (fst (parsePatientResponse None ''no my friend is taking me'' None)) = DECLINE_RIDE
         \<and> confidence (fst (parsePatientResponse None ''no my friend is taking me'' None)) \<ge> 9 / 10)"
  by (simp add: parsePatientResponse_def ruleBasedParsing_friend ruleResult_def Let_def)
section \<open>The offer-sent flag\<close>

text \<open>
  The offer sweep selects only appointments whose flag is unset, so a second sweep
  sends nothing more: the two offers of the first sweep remain the only messages.
\<close>

lemma offer_sweep_repeated_sends_once:
  "snd (sendRideOffers liveTwilio 0 clinicState)
     = [RIDE_OFFER_SENT ''a1'' ''+15550001'', RIDE_OFFER_SENT ''a2'' ''+15552345678'']
   \<and> snd (sendRideOffers liveTwilio 0 (fst (sendRideOffers liveTwilio 0 clinicState))) = []
   \<and> map sms_appointmentId
        (smsMessages (fst (sendRideOffers liveTwilio 0 (fst (sendRideOffers liveTwilio 0 clinicState)))))
       = [''a1'', ''a2'']"
  by code_simp

text \<open>
  C3 fails on the manual path.  \<^verbatim>\<open>POST /api/appointments/:id/offer-ride\<close> never reads
  the flag: called twice in sequence for Carlos's appointment, with every send
  successful, the first call sets the flag and the second call sends a second offer.
\<close>

theorem manual_offer_repeated_sends_again:
  "map rideOfferSent
     (filter (\<lambda>a. appt_id a = ''a2'')
        (appointments (fst (snd (offerRide liveTwilio clinicState ''a2''))))) = [True]
   \<and> map sms_direction
        (filter (\<lambda>m. sms_appointmentId m = ''a2'')
           (smsMessages (fst (snd (offerRide liveTwilio
              (fst (snd (offerRide liveTwilio clinicState ''a2''))) ''a2'')))))
       = [OUTBOUND, OUTBOUND]
   \<and> snd (snd (offerRide liveTwilio (fst (snd (offerRide liveTwilio clinicState ''a2''))) ''a2''))
       = [RIDE_OFFER_SENT ''a2'' ''+15552345678'']"
  by code_simp

section \<open>The arrival notice\<close>

text \<open>When the stored status is still SCHEDULED, a reported arrival sends the notice.\<close>

lemma arrival_from_scheduled_sends_notice:
  "map sms_phoneNumber
     (smsMessages (fst (updateRideStatuses liveTwilio arrivedProvider
        (enRouteState\<lparr>rides := [carlosRide\<lparr>ride_status := ''SCHEDULED''\<rparr>]\<rparr>))))
     = [''+15552345678'']"
  by code_simp

text \<open>
  C7 fails.  The provider's statuses driver\_assigned, en\_route and arrived all map to
  DRIVER\_ASSIGNED, and the notice is sent only when the mapped status differs from
  the stored one.  For Carlos's ride, stored as DRIVER\_ASSIGNED, with a reachable
  phone, the provider's transition into arrived emits no event and sends no message.
\<close>

theorem arrival_after_en_route_sends_no_notice:
  "truthy (contactPhone carlos)
   \<and> map ride_status (rides enRouteState) = [''DRIVER_ASSIGNED'']
   \<and> map_option uber_status (arrivedProvider ''UBER_1'') = Some ''arrived''
   \<and> snd (updateRideStatuses liveTwilio arrivedProvider enRouteState) = []
   \<and> smsMessages (fst (updateRideStatuses liveTwilio arrivedProvider enRouteState)) = []"
  by code_simp

section \<open>The cache of assessments and inbound messages\<close>

lemma sendSMS_cache: "aiRiskCacheTable (snd (sendSMS tw s to body i)) = aiRiskCacheTable s"
  by (simp add: sendSMS_def Let_def split: sum.splits)

lemma handleIncomingSMS_cache:
  "aiRiskCacheTable (snd (handleIncomingSMS s from body sid)) = aiRiskCacheTable s"
  by (simp add: handleIncomingSMS_def Let_def)

lemma confirmRide_cache:
  "aiRiskCacheTable (fst (snd (confirmRide tw b s a parsed))) = aiRiskCacheTable s"
  by (simp add: confirmRide_def bookRide_def Let_def split: option.splits)

lemma declineRide_cache: "aiRiskCacheTable (fst (snd (declineRide s a))) = aiRiskCacheTable s"
  by (simp add: declineRide_def)

text \<open>No branch of the inbound handler writes the cache table.\<close>

lemma handleIntent_cache:
  "aiRiskCacheTable (fst (snd (handleIntent tw gen b s a body parsed))) = aiRiskCacheTable s"
  by (cases "intent parsed")
    (simp_all add: handleIntent_def confirmRide_cache declineRide_cache)

lemma webhook_cache:
  "aiRiskCacheTable (fst (webhook tw claude gen toIso b s from body sid)) = aiRiskCacheTable s"
  by (simp add: webhook_def Let_def sendSMS_cache handleIncomingSMS_cache handleIntent_cache
      split: option.splits)

text \<open>
  The cache is read before the provider is asked: with the service enabled and a
  client present, an entry that has not expired is blended and returned with no call
  to the provider and no write.
\<close>

lemma cached_assessment_used_without_call:
  "isEnabled svc \<Longrightarrow> aiClient svc = Some client \<Longrightarrow>
   getCachedAssessment env s now (appt_id a) = Some cached \<Longrightarrow>
   calculateAIEnhancedRiskScore svc readText env now sixMonthsAgo s p a =
     (combineScores (calculateRiskScore (noShowHistoryTable s) sixMonthsAgo p a) cached, s, 0)"
  by (simp add: calculateAIEnhancedRiskScore_def Let_def)

text \<open>
  C8 fails in its last part.  An inbound message that the handler associates with
  Carlos's appointment leaves the cached assessment of that appointment in place.
\<close>

theorem inbound_message_keeps_cache_entry:
  "fst (handleIncomingSMS offeredState ''+15552345678'' ''YES'' ''SM9'') = Some ''a2''
   \<and> aiRiskCacheTable offeredState ''a2'' = Some cachedRow
   \<and> aiRiskCacheTable
        (fst (webhook liveTwilio None fixedAnswer isoOf demoBooking offeredState
                ''+15552345678'' ''YES'' ''SM9'')) ''a2'' = Some cachedRow"
proof -
  have "fst (handleIncomingSMS offeredState ''+15552345678'' ''YES'' ''SM9'') = Some ''a2''"
    by (simp add: handleIncomingSMS_def recentOutbound_def offeredState_def offerToCarlos_def
        clinicState_def Let_def)
  moreover have "aiRiskCacheTable offeredState ''a2'' = Some cachedRow"
    by (simp add: offeredState_def)
  ultimately show ?thesis
    by (simp add: webhook_cache)
qed
section \<open>Association of inbound messages\<close>

lemma find_append_none: "\<forall>x \<in> set xs. \<not> P x \<Longrightarrow> find P (xs @ ys) = find P ys"
  by (induction xs) simp_all

lemma find_rev_latest:
  "xs = pre @ m # post \<Longrightarrow> P m \<Longrightarrow> \<forall>x \<in> set post. \<not> P x \<Longrightarrow> find P (rev xs) = Some m"
  by (simp add: find_append_none)

lemma find_rev_none: "\<forall>x \<in> set xs. \<not> P x \<Longrightarrow> find P (rev xs) = None"
  by (simp add: find_None_iff)

lemma recentOutbound_latest:
  "smsMessages s = pre @ m # post \<Longrightarrow> sms_phoneNumber m = from \<and> sms_direction m = OUTBOUND \<Longrightarrow>
   \<forall>x \<in> set post. \<not> (sms_phoneNumber x = from \<and> sms_direction x = OUTBOUND) \<Longrightarrow>
   recentOutbound s from = Some m"
  unfolding recentOutbound_def
  by (rule find_rev_latest [where P = "\<lambda>m. sms_phoneNumber m = from \<and> sms_direction m = OUTBOUND"])

lemma recentOutbound_none:
  "\<forall>x \<in> set (smsMessages s). \<not> (sms_phoneNumber x = from \<and> sms_direction x = OUTBOUND) \<Longrightarrow>
   recentOutbound s from = None"
  unfolding recentOutbound_def
  by (rule find_rev_none [where P = "\<lambda>m. sms_phoneNumber m = from \<and> sms_direction m = OUTBOUND"])

lemma orStr_same: "orStr (if x = [] then None else Some x) [] = x"
  by (simp add: orStr_def)

lemma handleIncomingSMS_messages:
  "smsMessages (snd (handleIncomingSMS s from body sid)) =
     smsMessages s
     @ [\<lparr>sms_appointmentId =
           (case recentOutbound s from of None \<Rightarrow> [] | Some m \<Rightarrow> sms_appointmentId m),
         sms_phoneNumber = from, sms_message = body, sms_direction = INBOUND,
         sms_status = RECEIVED, sms_twilioSid = Some sid\<rparr>]"
  by (simp add: handleIncomingSMS_def Let_def orStr_def split: option.splits)

lemma sendSMS_messages_grow:
  "\<exists>rest. smsMessages (snd (sendSMS tw s to body i)) = smsMessages s @ rest"
  by (simp add: sendSMS_def Let_def split: sum.splits)

lemma confirmRide_messages:
  "smsMessages (fst (snd (confirmRide tw b s a parsed))) = smsMessages s"
  by (simp add: confirmRide_def bookRide_def Let_def split: option.splits)

lemma declineRide_messages: "smsMessages (fst (snd (declineRide s a))) = smsMessages s"
  by (simp add: declineRide_def)

lemma handleIntent_messages:
  "smsMessages (fst (snd (handleIntent tw gen b s a body parsed))) = smsMessages s"
  by (cases "intent parsed")
    (simp_all add: handleIntent_def confirmRide_messages declineRide_messages)

text \<open>The handler only ever appends to the log that \<^verbatim>\<open>handleIncomingSMS\<close> leaves.\<close>

lemma reply_messages_grow:
  "\<exists>rest. smsMessages (if msg \<noteq> [] then snd (sendSMS tw s1 to msg i) else s1)
     = smsMessages s1 @ rest"
  using sendSMS_messages_grow [of tw s1 to msg i] by (cases "msg = []") simp_all

lemma webhook_messages_grow:
  "\<exists>rest. smsMessages (fst (webhook tw claude gen toIso b s from body sid)) =
     smsMessages (snd (handleIncomingSMS s from body sid)) @ rest"
proof (cases "fst (handleIncomingSMS s from body sid)")
  case None
  then show ?thesis
    by (simp add: webhook_def Let_def)
next
  case (Some i)
  show ?thesis
  proof (cases "find (\<lambda>a. appt_id a = i) (appointments (snd (handleIncomingSMS s from body sid)))")
    case None
    with Some show ?thesis
      by (simp add: webhook_def Let_def)
  next
    case (Some a)
    with \<open>fst (handleIncomingSMS s from body sid) = Some i\<close> show ?thesis
      using reply_messages_grow
        [of "fst (handleIntent tw gen b (snd (handleIncomingSMS s from body sid)) a body
               (fst (parsePatientResponse claude body
                  (Some \<lparr>ctx_patientName = Some (firstName (appt_patient a)),
                         ctx_appointmentDate = Some (toIso (appointmentDate a)),
                         ctx_clinicName = Some (clinic_name (appt_clinic a))\<rparr>))))"
            tw
            "fst (snd (handleIntent tw gen b (snd (handleIncomingSMS s from body sid)) a body
               (fst (parsePatientResponse claude body
                  (Some \<lparr>ctx_patientName = Some (firstName (appt_patient a)),
                         ctx_appointmentDate = Some (toIso (appointmentDate a)),
                         ctx_clinicName = Some (clinic_name (appt_clinic a))\<rparr>)))))"
            "from" "Some i"]
      by (simp add: webhook_def Let_def handleIntent_messages)
  qed
qed

lemma webhook_unassociated:
  "recentOutbound s from = None \<Longrightarrow>
   webhook tw claude gen toIso b s from body sid =
     (s\<lparr>smsMessages := smsMessages s
          @ [\<lparr>sms_appointmentId = [], sms_phoneNumber = from, sms_message = body,
              sms_direction = INBOUND, sms_status = RECEIVED, sms_twilioSid = Some sid\<rparr>]\<rparr>,
      [], 0)"
  by (simp add: webhook_def handleIncomingSMS_def Let_def orStr_def)

text \<open>
  C10.  Every inbound message is recorded, as the next row of the log, with the
  appointment of the most recent outbound message to the sender's number: the
  outbound row to that number after which the log holds no other.  When the log holds
  no outbound message to that number, the row is recorded with the empty association
  and nothing else happens: the state is otherwise unchanged (no ride, no reply), no
  event is emitted and the intent provider is not called.
\<close>

theorem inbound_message_association:
  "(\<exists>rest. smsMessages (fst (webhook tw claude gen toIso b s from body sid)) =
       smsMessages s
       @ [\<lparr>sms_appointmentId =
             (case recentOutbound s from of None \<Rightarrow> [] | Some m \<Rightarrow> sms_appointmentId m),
           sms_phoneNumber = from, sms_message = body, sms_direction = INBOUND,
           sms_status = RECEIVED, sms_twilioSid = Some sid\<rparr>]
       @ rest)
   \<and> (\<forall>pre m post.
         smsMessages s = pre @ m # post
         \<and> sms_phoneNumber m = from \<and> sms_direction m = OUTBOUND
         \<and> (\<forall>x \<in> set post. \<not> (sms_phoneNumber x = from \<and> sms_direction x = OUTBOUND))
         \<longrightarrow> recentOutbound s from = Some m)
   \<and> ((\<forall>x \<in> set (smsMessages s). \<not> (sms_phoneNumber x = from \<and> sms_direction x = OUTBOUND))
        \<longrightarrow> recentOutbound s from = None
            \<and> webhook tw claude gen toIso b s from body sid =
                (s\<lparr>smsMessages := smsMessages s
                     @ [\<lparr>sms_appointmentId = [], sms_phoneNumber = from, sms_message = body,
                         sms_direction = INBOUND, sms_status = RECEIVED,
                         sms_twilioSid = Some sid\<rparr>]\<rparr>,
                 [], 0))"
proof (intro conjI allI impI)
  show "\<exists>rest. smsMessages (fst (webhook tw claude gen toIso b s from body sid)) =
       smsMessages s
       @ [\<lparr>sms_appointmentId =
             (case recentOutbound s from of None \<Rightarrow> [] | Some m \<Rightarrow> sms_appointmentId m),
           sms_phoneNumber = from, sms_message = body, sms_direction = INBOUND,
           sms_status = RECEIVED, sms_twilioSid = Some sid\<rparr>]
       @ rest"
    using webhook_messages_grow [of tw claude gen toIso b s "from" body sid]
    by (simp add: handleIncomingSMS_messages)
next
  fix pre m post
  assume "smsMessages s = pre @ m # post
         \<and> sms_phoneNumber m = from \<and> sms_direction m = OUTBOUND
         \<and> (\<forall>x \<in> set post. \<not> (sms_phoneNumber x = from \<and> sms_direction x = OUTBOUND))"
  then show "recentOutbound s from = Some m"
    using recentOutbound_latest [of s pre m post "from"] by blast
next
  assume none: "\<forall>x \<in> set (smsMessages s).
      \<not> (sms_phoneNumber x = from \<and> sms_direction x = OUTBOUND)"
  then show "recentOutbound s from = None"
    by (rule recentOutbound_none)
  then show "webhook tw claude gen toIso b s from body sid =
                (s\<lparr>smsMessages := smsMessages s
                     @ [\<lparr>sms_appointmentId = [], sms_phoneNumber = from, sms_message = body,
                         sms_direction = INBOUND, sms_status = RECEIVED,
                         sms_twilioSid = Some sid\<rparr>]\<rparr>,
                 [], 0)"
    by (rule webhook_unassociated)
qed

theorem inbound_message_association_witness:
  "recentOutbound offeredState ''+15552345678'' = Some offerToCarlos
   \<and> sms_appointmentId offerToCarlos = ''a2''
   \<and> webhook liveTwilio (Some decliningClient) fixedAnswer isoOf demoBooking offeredState
        ''+19999'' ''YES'' ''SM9''
       = (offeredState\<lparr>smsMessages := smsMessages offeredState
            @ [\<lparr>sms_appointmentId = [], sms_phoneNumber = ''+19999'', sms_message = ''YES'',
                sms_direction = INBOUND, sms_status = RECEIVED, sms_twilioSid = Some ''SM9''\<rparr>]\<rparr>,
          [], 0)"
  using
    inbound_message_association
      [of liveTwilio "Some decliningClient" fixedAnswer isoOf demoBooking offeredState
        "''+15552345678''" "''YES''" "''SM9''",
       THEN conjunct2, THEN conjunct1, rule_format, of "[]" offerToCarlos "[]"]
    inbound_message_association
      [of liveTwilio "Some decliningClient" fixedAnswer isoOf demoBooking offeredState
        "''+19999''" "''YES''" "''SM9''", THEN conjunct2, THEN conjunct2]
  by (simp add: offeredState_def offerToCarlos_def clinicState_def)
section \<open>Cancellation\<close>

lemma cancelRoute_found:
  "find (\<lambda>r. ride_id r = i) (rides s) = Some r \<Longrightarrow>
   cancelRoute s i =
     (let cancelled = (if truthy (uberRideId r) then cancelRide s (orStr (uberRideId r) [])
                       else (\<lparr>cancel_success = True, cancel_message = []\<rparr>, s))
      in if \<not> cancel_success (fst cancelled) then
           (Inl (HttpError 400 ''CANCEL_FAILED''), snd cancelled, [])
         else
           (Inr (r\<lparr>ride_status := CANCELLED\<rparr>), setRideStatus (snd cancelled) i CANCELLED,
            [RIDE_STATUS_UPDATE i (ride_status r) CANCELLED]))"
  unfolding cancelRoute_def by (simp only: option.case)

lemma cancelRide_refused:
  "(case mockRides s u of
      None \<Rightarrow> True
    | Some p \<Rightarrow> uber_status p = ''completed'' \<or> uber_status p = ''in_progress'') \<Longrightarrow>
   \<not> cancel_success (fst (cancelRide s u)) \<and> snd (cancelRide s u) = s"
  by (cases "mockRides s u") (auto simp: cancelRide_def)

lemma cancelRide_accepted:
  "mockRides s u = Some p \<Longrightarrow> uber_status p \<noteq> ''completed'' \<Longrightarrow>
   uber_status p \<noteq> ''in_progress'' \<Longrightarrow>
   cancel_success (fst (cancelRide s u))
   \<and> snd (cancelRide s u) = s\<lparr>mockRides := (mockRides s)(u \<mapsto> p\<lparr>uber_status := ''cancelled''\<rparr>)\<rparr>"
  unfolding cancelRide_def
  by (simp only: option.case if_False fst_conv snd_conv cancelResult.simps simp_thms)

lemma cancelRoute_refused:
  assumes "find (\<lambda>r. ride_id r = i) (rides s) = Some r" and "truthy (uberRideId r)"
    and "\<not> cancel_success (fst (cancelRide s (orStr (uberRideId r) [])))"
    and "snd (cancelRide s (orStr (uberRideId r) [])) = s"
  shows "cancelRoute s i = (Inl (HttpError 400 ''CANCEL_FAILED''), s, [])"
  unfolding cancelRoute_found [OF assms(1)] Let_def
  by (simp only: assms(2,3,4) if_True simp_thms)

lemma cancelRoute_accepted:
  assumes "find (\<lambda>r. ride_id r = i) (rides s) = Some r" and "truthy (uberRideId r)"
    and "cancel_success (fst (cancelRide s (orStr (uberRideId r) [])))"
  shows "cancelRoute s i =
     (Inr (r\<lparr>ride_status := CANCELLED\<rparr>),
      setRideStatus (snd (cancelRide s (orStr (uberRideId r) []))) i CANCELLED,
      [RIDE_STATUS_UPDATE i (ride_status r) CANCELLED])"
  unfolding cancelRoute_found [OF assms(1)] Let_def
  by (simp only: assms(2,3) if_True if_False simp_thms)

lemma cancelRoute_without_provider:
  assumes "find (\<lambda>r. ride_id r = i) (rides s) = Some r" and "\<not> truthy (uberRideId r)"
  shows "cancelRoute s i =
     (Inr (r\<lparr>ride_status := CANCELLED\<rparr>), setRideStatus s i CANCELLED,
      [RIDE_STATUS_UPDATE i (ride_status r) CANCELLED])"
  unfolding cancelRoute_found [OF assms(1)] Let_def
  by (simp only: assms(2) if_False fst_conv snd_conv cancelResult.simps simp_thms)

lemma setRideStatus_rides:
  "rides (setRideStatus s i st) =
     map (\<lambda>x. if ride_id x = i then x\<lparr>ride_status := st\<rparr> else x) (rides s)"
  by (simp add: setRideStatus_def)

lemma setRideStatus_sets:
  "\<forall>x \<in> set (rides (setRideStatus s i st)). ride_id x = i \<longrightarrow> ride_status x = st"
proof (intro ballI impI)
  fix x
  define f :: "ride \<Rightarrow> ride"
    where "f = (\<lambda>x. if ride_id x = i then x\<lparr>ride_status := st\<rparr> else x)"
  assume mem: "x \<in> set (rides (setRideStatus s i st))" and i: "ride_id x = i"
  from mem have "x \<in> f ` set (rides s)"
    unfolding setRideStatus_rides f_def set_map .
  then obtain y where y: "x = f y"
    by (rule imageE)
  show "ride_status x = st"
  proof (cases "ride_id y = i")
    case True
    then have "f y = y\<lparr>ride_status := st\<rparr>"
      unfolding f_def by (rule if_P)
    then show ?thesis
      unfolding y by simp
  next
    case False
    then have "f y = y"
      unfolding f_def by (rule if_not_P)
    with y have "x = y" by (rule trans)
    with i False show ?thesis by blast
  qed
qed

lemma setRideStatus_mockRides: "mockRides (setRideStatus s i st) = mockRides s"
  by (simp add: setRideStatus_def)

text \<open>
  C5, as the code has it.  The decision is the provider's, not the stored status's.
  For a ride with a provider identifier: when the provider's store has no record of
  it, or records it as completed or in\_progress, the cancel operation returns the
  error CANCEL\_FAILED (HTTP 400) and changes nothing and emits nothing; when the
  provider's record has any other status, the operation marks that record cancelled,
  sets the ride's status to CANCELLED and emits a status-change notification.  A ride
  without a provider identifier is always set to CANCELLED, with the notification.
\<close>

theorem cancel_follows_provider:
  "find (\<lambda>r. ride_id r = i) (rides s) = Some r \<longrightarrow>
     (truthy (uberRideId r)
        \<and> (case mockRides s (orStr (uberRideId r) []) of
              None \<Rightarrow> True
            | Some p \<Rightarrow> uber_status p = ''completed'' \<or> uber_status p = ''in_progress'')
      \<longrightarrow> cancelRoute s i = (Inl (HttpError 400 ''CANCEL_FAILED''), s, []))
     \<and> (truthy (uberRideId r)
          \<and> (\<exists>p. mockRides s (orStr (uberRideId r) []) = Some p
                 \<and> uber_status p \<noteq> ''completed'' \<and> uber_status p \<noteq> ''in_progress'')
        \<longrightarrow> fst (cancelRoute s i) = Inr (r\<lparr>ride_status := CANCELLED\<rparr>)
            \<and> snd (snd (cancelRoute s i)) = [RIDE_STATUS_UPDATE i (ride_status r) CANCELLED]
            \<and> (\<forall>x \<in> set (rides (fst (snd (cancelRoute s i)))).
                  ride_id x = i \<longrightarrow> ride_status x = CANCELLED)
            \<and> map_option uber_status
                 (mockRides (fst (snd (cancelRoute s i))) (orStr (uberRideId r) []))
                = Some ''cancelled'')
     \<and> (\<not> truthy (uberRideId r)
        \<longrightarrow> cancelRoute s i =
              (Inr (r\<lparr>ride_status := CANCELLED\<rparr>), setRideStatus s i CANCELLED,
               [RIDE_STATUS_UPDATE i (ride_status r) CANCELLED]))"
proof (intro impI conjI)
  assume found: "find (\<lambda>r. ride_id r = i) (rides s) = Some r"
  {
    assume h: "truthy (uberRideId r)
        \<and> (case mockRides s (orStr (uberRideId r) []) of
              None \<Rightarrow> True
            | Some p \<Rightarrow> uber_status p = ''completed'' \<or> uber_status p = ''in_progress'')"
    from h have t: "truthy (uberRideId r)" ..
    from h have "case mockRides s (orStr (uberRideId r) []) of
              None \<Rightarrow> True
            | Some p \<Rightarrow> uber_status p = ''completed'' \<or> uber_status p = ''in_progress''" ..
    then have "\<not> cancel_success (fst (cancelRide s (orStr (uberRideId r) [])))
        \<and> snd (cancelRide s (orStr (uberRideId r) [])) = s"
      by (rule cancelRide_refused)
    then show "cancelRoute s i = (Inl (HttpError 400 ''CANCEL_FAILED''), s, [])"
      using cancelRoute_refused [OF found t] by blast
  }
  {
    assume ok: "truthy (uberRideId r)
          \<and> (\<exists>p. mockRides s (orStr (uberRideId r) []) = Some p
                 \<and> uber_status p \<noteq> ''completed'' \<and> uber_status p \<noteq> ''in_progress'')"
    from ok have t: "truthy (uberRideId r)" ..
    from ok obtain p where p: "mockRides s (orStr (uberRideId r) []) = Some p"
      "uber_status p \<noteq> ''completed''" "uber_status p \<noteq> ''in_progress''"
      by blast
    note acc = cancelRide_accepted [OF p]
    from acc have route: "cancelRoute s i =
        (Inr (r\<lparr>ride_status := CANCELLED\<rparr>),
         setRideStatus (snd (cancelRide s (orStr (uberRideId r) []))) i CANCELLED,
         [RIDE_STATUS_UPDATE i (ride_status r) CANCELLED])"
      using cancelRoute_accepted [OF found t] by blast
    show "fst (cancelRoute s i) = Inr (r\<lparr>ride_status := CANCELLED\<rparr>)"
      unfolding route by (rule fst_conv)
    show "snd (snd (cancelRoute s i)) = [RIDE_STATUS_UPDATE i (ride_status r) CANCELLED]"
      unfolding route by (simp only: snd_conv)
    show "\<forall>x \<in> set (rides (fst (snd (cancelRoute s i)))).
                  ride_id x = i \<longrightarrow> ride_status x = CANCELLED"
      unfolding route by (simp only: fst_conv snd_conv) (rule setRideStatus_sets)
    have "mockRides (fst (snd (cancelRoute s i))) =
        mockRides (snd (cancelRide s (orStr (uberRideId r) [])))"
      unfolding route by (simp only: fst_conv snd_conv setRideStatus_mockRides)
    also have "\<dots> = (mockRides s)(orStr (uberRideId r) [] \<mapsto> p\<lparr>uber_status := ''cancelled''\<rparr>)"
      using acc by simp
    finally show "map_option uber_status
                 (mockRides (fst (snd (cancelRoute s i))) (orStr (uberRideId r) []))
                = Some ''cancelled''"
      by simp
  }
  {
    assume "\<not> truthy (uberRideId r)"
    then show "cancelRoute s i =
              (Inr (r\<lparr>ride_status := CANCELLED\<rparr>), setRideStatus s i CANCELLED,
               [RIDE_STATUS_UPDATE i (ride_status r) CANCELLED])"
      by (rule cancelRoute_without_provider [OF found])
  }
qed

lemma providerState_find:
  "find (\<lambda>r. ride_id r = ''r1'') (rides (providerState stored reported))
     = Some (carlosRide\<lparr>ride_status := stored\<rparr>)"
  by (simp add: providerState_def carlosRide_def)

lemma providerState_record:
  "truthy (uberRideId carlosRide)"
  "mockRides (providerState stored reported) (orStr (uberRideId carlosRide) [])
     = Some (reportOf reported)"
  "uber_status (reportOf reported) = reported"
  by (simp_all add: providerState_def carlosRide_def reportOf_def truthy_def orStr_def)

lemma completedWithoutProvider_find:
  "find (\<lambda>r. ride_id r = ''r1'') (rides completedWithoutProvider)
     = Some (carlosRide\<lparr>ride_status := ''COMPLETED'', uberRideId := None\<rparr>)"
  "\<not> truthy (uberRideId (carlosRide\<lparr>ride_status := ''COMPLETED'', uberRideId := None\<rparr>))"
  by (simp_all add: completedWithoutProvider_def carlosRide_def truthy_def)

theorem cancel_follows_provider_witness:
  "cancelRoute (providerState ''COMPLETED'' ''completed'') ''r1''
     = (Inl (HttpError 400 ''CANCEL_FAILED''), providerState ''COMPLETED'' ''completed'', [])
   \<and> snd (snd (cancelRoute (providerState ''DRIVER_ASSIGNED'' ''arrived'') ''r1''))
       = [RIDE_STATUS_UPDATE ''r1'' ''DRIVER_ASSIGNED'' CANCELLED]
   \<and> snd (snd (cancelRoute completedWithoutProvider ''r1''))
       = [RIDE_STATUS_UPDATE ''r1'' ''COMPLETED'' CANCELLED]"
proof (intro conjI)
  have "truthy (uberRideId (carlosRide\<lparr>ride_status := ''COMPLETED''\<rparr>))
      \<and> (case mockRides (providerState ''COMPLETED'' ''completed'')
                 (orStr (uberRideId (carlosRide\<lparr>ride_status := ''COMPLETED''\<rparr>)) []) of
            None \<Rightarrow> True
          | Some p \<Rightarrow> uber_status p = ''completed'' \<or> uber_status p = ''in_progress'')"
    by (simp add: providerState_record)
  then show "cancelRoute (providerState ''COMPLETED'' ''completed'') ''r1''
     = (Inl (HttpError 400 ''CANCEL_FAILED''), providerState ''COMPLETED'' ''completed'', [])"
    using cancel_follows_provider [of "''r1''" "providerState ''COMPLETED'' ''completed''"
        "carlosRide\<lparr>ride_status := ''COMPLETED''\<rparr>"] providerState_find
    by blast
next
  have "truthy (uberRideId (carlosRide\<lparr>ride_status := ''DRIVER_ASSIGNED''\<rparr>))
      \<and> (\<exists>p. mockRides (providerState ''DRIVER_ASSIGNED'' ''arrived'')
                 (orStr (uberRideId (carlosRide\<lparr>ride_status := ''DRIVER_ASSIGNED''\<rparr>)) []) = Some p
             \<and> uber_status p \<noteq> ''completed'' \<and> uber_status p \<noteq> ''in_progress'')"
    by (simp add: providerState_record)
  then have "snd (snd (cancelRoute (providerState ''DRIVER_ASSIGNED'' ''arrived'') ''r1''))
       = [RIDE_STATUS_UPDATE ''r1''
            (ride_status (carlosRide\<lparr>ride_status := ''DRIVER_ASSIGNED''\<rparr>)) CANCELLED]"
    using cancel_follows_provider [of "''r1''" "providerState ''DRIVER_ASSIGNED'' ''arrived''"
        "carlosRide\<lparr>ride_status := ''DRIVER_ASSIGNED''\<rparr>"] providerState_find
    by blast
  then show "snd (snd (cancelRoute (providerState ''DRIVER_ASSIGNED'' ''arrived'') ''r1''))
       = [RIDE_STATUS_UPDATE ''r1'' ''DRIVER_ASSIGNED'' CANCELLED]"
    by simp
next
  have "cancelRoute completedWithoutProvider ''r1'' =
      (Inr (carlosRide\<lparr>ride_status := ''COMPLETED'', uberRideId := None\<rparr>\<lparr>ride_status := CANCELLED\<rparr>),
       setRideStatus completedWithoutProvider ''r1'' CANCELLED,
       [RIDE_STATUS_UPDATE ''r1''
          (ride_status (carlosRide\<lparr>ride_status := ''COMPLETED'', uberRideId := None\<rparr>)) CANCELLED])"
    using cancel_follows_provider [of "''r1''" completedWithoutProvider
        "carlosRide\<lparr>ride_status := ''COMPLETED'', uberRideId := None\<rparr>"]
      completedWithoutProvider_find
    by blast
  then show "snd (snd (cancelRoute completedWithoutProvider ''r1''))
       = [RIDE_STATUS_UPDATE ''r1'' ''COMPLETED'' CANCELLED]"
    by simp
qed

text \<open>
  C5 as stated fails in both halves.  A ride stored as COMPLETED that has no provider
  identifier is cancelled; and a ride stored as SCHEDULED whose identifier the
  provider's store does not know is refused and stays SCHEDULED.
\<close>

theorem cancel_ignores_stored_status:
  "map ride_status (rides completedWithoutProvider) = [''COMPLETED'']
   \<and> map ride_status (rides (fst (snd (cancelRoute completedWithoutProvider ''r1''))))
       = [''CANCELLED'']
   \<and> map ride_status (rides unknownToProvider) = [''SCHEDULED'']
   \<and> cancelRoute unknownToProvider ''r1''
       = (Inl (HttpError 400 ''CANCEL_FAILED''), unknownToProvider, [])"
  by (simp add: cancelRoute_def cancelRide_def setRideStatus_def completedWithoutProvider_def
      unknownToProvider_def clinicState_def carlosRide_def truthy_def orStr_def CANCELLED_def
      Let_def)
section \<open>Idempotence of the status-sync sweep\<close>

lemma sendSMS_rides: "rides (snd (sendSMS tw s to body i)) = rides s"
  by (simp add: sendSMS_def Let_def split: sum.splits)

lemma sendDriverArriving_rides: "rides (snd (sendDriverArriving tw s r ph)) = rides s"
  by (simp add: sendDriverArriving_def sendSMS_rides)

lemma writeRide_rides:
  "rides (writeRide s us r) =
     map (\<lambda>x. if ride_id x = ride_id r then syncedRow us r x else x) (rides s)"
  by (simp add: writeRide_def)

lemma writeRide_messages: "smsMessages (writeRide s us r) = smsMessages s"
  by (simp add: writeRide_def)

lemma syncedRow_fields:
  "ride_id (syncedRow us r x) = ride_id x"
  "uberRideId (syncedRow us r x) = uberRideId x"
  "ride_status (syncedRow us r x) = newStatusOf us r"
  by (simp_all add: syncedRow_def)

lemma newStatusOf_syncedRow: "newStatusOf us (syncedRow us r x) = newStatusOf us r"
  by (cases "statusMap (uber_status us)") (simp_all add: newStatusOf_def syncedRow_fields)

lemma syncedRow_settled:
  "provider (orStr (uberRideId r) []) = Some us \<Longrightarrow> settled provider (syncedRow us r r)"
  by (simp add: settled_def syncedRow_fields newStatusOf_syncedRow)

lemma syncStep_skip:
  "\<not> truthy (uberRideId (fst rp)) \<or> provider (orStr (uberRideId (fst rp)) []) = None \<Longrightarrow>
   syncStep tw provider rp acc = acc"
  by (auto simp: syncStep_def Let_def)

lemma syncStep_unchanged:
  "truthy (uberRideId (fst rp)) \<Longrightarrow> provider (orStr (uberRideId (fst rp)) []) = Some us \<Longrightarrow>
   newStatusOf us (fst rp) = ride_status (fst rp) \<Longrightarrow>
   syncStep tw provider rp acc = (writeRide (fst acc) us (fst rp), snd acc)"
  by (simp add: syncStep_def Let_def)

lemma syncStep_changed:
  "truthy (uberRideId (fst rp)) \<Longrightarrow> provider (orStr (uberRideId (fst rp)) []) = Some us \<Longrightarrow>
   newStatusOf us (fst rp) \<noteq> ride_status (fst rp) \<Longrightarrow>
   rides (fst (syncStep tw provider rp acc)) = rides (writeRide (fst acc) us (fst rp))
   \<and> snd (syncStep tw provider rp acc) =
       snd acc @ [RIDE_STATUS_UPDATE (ride_id (fst rp)) (ride_status (fst rp))
                    (newStatusOf us (fst rp))]"
  by (simp add: syncStep_def Let_def sendDriverArriving_rides split: option.splits)

text \<open>
  Whatever a step does, the ride table afterwards is the old one with the rows of the
  ride's id rewritten by a function that keeps the id and leaves the ride settled.
\<close>

lemma syncStep_rides_shape:
  "\<exists>h. rides (fst (syncStep tw provider rp acc)) =
          map (\<lambda>x. if ride_id x = ride_id (fst rp) then h x else x) (rides (fst acc))
       \<and> (\<forall>x. ride_id (h x) = ride_id x)
       \<and> settled provider (h (fst rp))"
proof (cases "truthy (uberRideId (fst rp))")
  case False
  then have "syncStep tw provider rp acc = acc"
    by (simp add: syncStep_skip)
  moreover from False have "settled provider (fst rp)"
    by (simp add: settled_def)
  ultimately show ?thesis
    by (intro exI [of _ "\<lambda>x. x"]) (simp add: map_idI)
next
  case True
  show ?thesis
  proof (cases "provider (orStr (uberRideId (fst rp)) [])")
    case None
    then have "syncStep tw provider rp acc = acc"
      by (simp add: syncStep_skip)
    moreover from None have "settled provider (fst rp)"
      by (simp add: settled_def)
    ultimately show ?thesis
      by (intro exI [of _ "\<lambda>x. x"]) (simp add: map_idI)
  next
    case (Some us)
    have "rides (fst (syncStep tw provider rp acc)) = rides (writeRide (fst acc) us (fst rp))"
    proof (cases "newStatusOf us (fst rp) = ride_status (fst rp)")
      case True
      with \<open>truthy (uberRideId (fst rp))\<close> Some show ?thesis
        by (simp add: syncStep_unchanged)
    next
      case False
      with \<open>truthy (uberRideId (fst rp))\<close> Some show ?thesis
        using syncStep_changed [of rp provider us tw acc] by blast
    qed
    then have "rides (fst (syncStep tw provider rp acc)) =
        map (\<lambda>x. if ride_id x = ride_id (fst rp) then syncedRow us (fst rp) x else x)
          (rides (fst acc))"
      by (simp only: writeRide_rides)
    moreover have "\<forall>x. ride_id (syncedRow us (fst rp) x) = ride_id x"
      by (simp add: syncedRow_fields)
    moreover have "settled provider (syncedRow us (fst rp) (fst rp))"
      using Some by (rule syncedRow_settled)
    ultimately show ?thesis
      by (intro exI [of _ "syncedRow us (fst rp)"]) blast
  qed
qed

text \<open>A settled ride makes its step emit nothing and send nothing.\<close>

lemma syncStep_settled:
  assumes "settled provider (fst rp)"
  shows "snd (syncStep tw provider rp acc) = snd acc
     \<and> smsMessages (fst (syncStep tw provider rp acc)) = smsMessages (fst acc)"
proof (cases "truthy (uberRideId (fst rp))")
  case False
  then show ?thesis by (simp add: syncStep_skip)
next
  case True
  show ?thesis
  proof (cases "provider (orStr (uberRideId (fst rp)) [])")
    case None
    then show ?thesis by (simp add: syncStep_skip)
  next
    case (Some us)
    with assms True have "newStatusOf us (fst rp) = ride_status (fst rp)"
      by (simp add: settled_def)
    with True Some show ?thesis
      by (simp add: syncStep_unchanged writeRide_messages)
  qed
qed

lemma fold_syncStep_settled:
  "\<forall>rp \<in> set rps. settled provider (fst rp) \<Longrightarrow>
   snd (fold (syncStep tw provider) rps acc) = snd acc
   \<and> smsMessages (fst (fold (syncStep tw provider) rps acc)) = smsMessages (fst acc)"
proof (induction rps arbitrary: acc)
  case Nil
  show ?case by simp
next
  case (Cons rp rps)
  from Cons.prems have "settled provider (fst rp)" by simp
  then have step: "snd (syncStep tw provider rp acc) = snd acc
      \<and> smsMessages (fst (syncStep tw provider rp acc)) = smsMessages (fst acc)"
    by (rule syncStep_settled)
  from Cons.prems have "\<forall>rp \<in> set rps. settled provider (fst rp)" by simp
  then have "snd (fold (syncStep tw provider) rps (syncStep tw provider rp acc))
        = snd (syncStep tw provider rp acc)
      \<and> smsMessages (fst (fold (syncStep tw provider) rps (syncStep tw provider rp acc)))
        = smsMessages (fst (syncStep tw provider rp acc))"
    by (rule Cons.IH)
  with step show ?case by simp
qed

text \<open>No step adds a notification whose old and new status agree.\<close>

lemma syncStep_no_noop:
  assumes "\<forall>e \<in> set (snd acc). \<not> isNoOpUpdate e"
  shows "\<forall>e \<in> set (snd (syncStep tw provider rp acc)). \<not> isNoOpUpdate e"
proof (cases "truthy (uberRideId (fst rp))")
  case False
  with assms show ?thesis by (simp add: syncStep_skip)
next
  case True
  show ?thesis
  proof (cases "provider (orStr (uberRideId (fst rp)) [])")
    case None
    with assms show ?thesis by (simp add: syncStep_skip)
  next
    case (Some us)
    show ?thesis
    proof (cases "newStatusOf us (fst rp) = ride_status (fst rp)")
      case same: True
      with True Some assms show ?thesis
        by (simp add: syncStep_unchanged)
    next
      case False
      with True Some have "snd (syncStep tw provider rp acc) =
          snd acc @ [RIDE_STATUS_UPDATE (ride_id (fst rp)) (ride_status (fst rp))
                       (newStatusOf us (fst rp))]"
        using syncStep_changed [of rp provider us tw acc] by blast
      moreover from False
      have "\<not> isNoOpUpdate (RIDE_STATUS_UPDATE (ride_id (fst rp)) (ride_status (fst rp))
                       (newStatusOf us (fst rp)))"
        by (simp add: isNoOpUpdate_def)
      ultimately show ?thesis
        using assms by simp
    qed
  qed
qed

lemma fold_syncStep_no_noop:
  "\<forall>e \<in> set (snd acc). \<not> isNoOpUpdate e \<Longrightarrow>
   \<forall>e \<in> set (snd (fold (syncStep tw provider) rps acc)). \<not> isNoOpUpdate e"
proof (induction rps arbitrary: acc)
  case Nil
  then show ?case by simp
next
  case (Cons rp rps)
  from Cons.prems have "\<forall>e \<in> set (snd (syncStep tw provider rp acc)). \<not> isNoOpUpdate e"
    by (rule syncStep_no_noop)
  then have "\<forall>e \<in> set (snd (fold (syncStep tw provider) rps (syncStep tw provider rp acc))).
      \<not> isNoOpUpdate e"
    by (rule Cons.IH)
  then show ?case by simp
qed

text \<open>
  The invariant of the loop.  The rides still to be processed are, in the table, as
  the query read them; every other active ride is settled.
\<close>

lemma pending_rows_kept:
  assumes shape: "new = map (\<lambda>x. if ride_id x = k then h x else x) old"
    and hid: "\<forall>x. ride_id (h x) = ride_id x"
    and fresh: "\<forall>rp \<in> set rps. ride_id (fst rp) \<noteq> k"
    and known: "\<forall>rp \<in> set rps. \<forall>x \<in> set old. ride_id x = ride_id (fst rp) \<longrightarrow> x = fst rp"
  shows "\<forall>rp \<in> set rps. \<forall>x \<in> set new. ride_id x = ride_id (fst rp) \<longrightarrow> x = fst rp"
proof (intro ballI impI)
  fix rp x'
  assume rp: "rp \<in> set rps" and x': "x' \<in> set new" and same: "ride_id x' = ride_id (fst rp)"
  from x' obtain x where x: "x \<in> set old" and eq: "x' = (if ride_id x = k then h x else x)"
    unfolding shape by auto
  have "ride_id x' = ride_id x"
  proof (cases "ride_id x = k")
    case True
    with eq have "x' = h x" by simp
    with hid show ?thesis by simp
  next
    case False
    with eq show ?thesis by simp
  qed
  with same have idx: "ride_id x = ride_id (fst rp)" by simp
  with fresh rp have "ride_id x \<noteq> k" by simp
  with eq have "x' = x" by simp
  moreover from known rp x idx have "x = fst rp" by blast
  ultimately show "x' = fst rp" by simp
qed

lemma others_settled:
  assumes shape: "new = map (\<lambda>x. if ride_id x = ride_id r then h x else x) old"
    and stl: "settled provider (h r)"
    and known: "\<forall>x \<in> set old. ride_id x = ride_id r \<longrightarrow> x = r"
    and rest: "\<forall>x \<in> set old. activeRide x \<longrightarrow>
        settled provider x \<or> ride_id x = ride_id r \<or> ride_id x \<in> ids"
  shows "\<forall>x \<in> set new. activeRide x \<longrightarrow> settled provider x \<or> ride_id x \<in> ids"
proof (intro ballI impI)
  fix x'
  assume x': "x' \<in> set new" and active: "activeRide x'"
  from x' obtain x where x: "x \<in> set old"
    and eq: "x' = (if ride_id x = ride_id r then h x else x)"
    unfolding shape by auto
  show "settled provider x' \<or> ride_id x' \<in> ids"
  proof (cases "ride_id x = ride_id r")
    case True
    with known x have "x = r" by blast
    with eq True have "x' = h r" by simp
    with stl show ?thesis by simp
  next
    case False
    with eq have same: "x' = x" by simp
    with active have "activeRide x" by simp
    with rest x have "settled provider x \<or> ride_id x = ride_id r \<or> ride_id x \<in> ids"
      by blast
    with False same show ?thesis by blast
  qed
qed

lemma fold_syncStep_invariant:
  "distinct (map (\<lambda>rp. ride_id (fst rp)) rps) \<Longrightarrow>
   \<forall>rp \<in> set rps. \<forall>x \<in> set (rides (fst acc)). ride_id x = ride_id (fst rp) \<longrightarrow> x = fst rp \<Longrightarrow>
   \<forall>x \<in> set (rides (fst acc)). activeRide x \<longrightarrow>
      settled provider x \<or> ride_id x \<in> (\<lambda>rp. ride_id (fst rp)) ` set rps \<Longrightarrow>
   \<forall>x \<in> set (rides (fst (fold (syncStep tw provider) rps acc))).
      activeRide x \<longrightarrow> settled provider x"
proof (induction rps arbitrary: acc)
  case Nil
  then show ?case by simp
next
  case (Cons rp rps)
  let ?acc' = "syncStep tw provider rp acc"
  let ?ids = "(\<lambda>rp. ride_id (fst rp)) ` set rps"
  from syncStep_rides_shape [of tw provider rp acc]
  obtain h where shape: "rides (fst ?acc') =
        map (\<lambda>x. if ride_id x = ride_id (fst rp) then h x else x) (rides (fst acc))"
    and hid: "\<forall>x. ride_id (h x) = ride_id x"
    and stl: "settled provider (h (fst rp))"
    by blast
  from Cons.prems(1) have dist: "distinct (map (\<lambda>rp. ride_id (fst rp)) rps)"
    and notin: "ride_id (fst rp) \<notin> ?ids"
    by simp_all
  have fresh: "\<forall>q \<in> set rps. ride_id (fst q) \<noteq> ride_id (fst rp)"
  proof
    fix q
    assume "q \<in> set rps"
    then have "ride_id (fst q) \<in> ?ids" by (rule imageI)
    with notin show "ride_id (fst q) \<noteq> ride_id (fst rp)" by metis
  qed
  from Cons.prems(2)
  have known_rest: "\<forall>q \<in> set rps. \<forall>x \<in> set (rides (fst acc)).
      ride_id x = ride_id (fst q) \<longrightarrow> x = fst q"
    and known_rp: "\<forall>x \<in> set (rides (fst acc)). ride_id x = ride_id (fst rp) \<longrightarrow> x = fst rp"
    by simp_all
  from Cons.prems(3)
  have rest: "\<forall>x \<in> set (rides (fst acc)). activeRide x \<longrightarrow>
      settled provider x \<or> ride_id x = ride_id (fst rp) \<or> ride_id x \<in> ?ids"
    by auto
  have I1: "\<forall>q \<in> set rps. \<forall>x \<in> set (rides (fst ?acc')).
      ride_id x = ride_id (fst q) \<longrightarrow> x = fst q"
    using shape hid fresh known_rest by (rule pending_rows_kept)
  have I2: "\<forall>x \<in> set (rides (fst ?acc')). activeRide x \<longrightarrow>
      settled provider x \<or> ride_id x \<in> ?ids"
    using shape stl known_rp rest by (rule others_settled)
  have "\<forall>x \<in> set (rides (fst (fold (syncStep tw provider) rps ?acc'))).
      activeRide x \<longrightarrow> settled provider x"
    using dist I1 I2 by (rule Cons.IH)
  then show ?case by simp
qed

lemma sweep_leaves_settled:
  assumes "distinct (map ride_id (rides s))"
  shows "\<forall>x \<in> set (rides (fst (updateRideStatuses tw provider s))).
     activeRide x \<longrightarrow> settled provider x"
proof -
  let ?rps = "map (\<lambda>r. (r, ridePatient s r)) (filter activeRide (rides s))"
  have ids: "map (\<lambda>rp. ride_id (fst rp)) ?rps = map ride_id (filter activeRide (rides s))"
    by (simp add: comp_def)
  have d: "distinct (map (\<lambda>rp. ride_id (fst rp)) ?rps)"
    unfolding ids using assms by (rule distinct_map_filter)
  from assms have inj: "inj_on ride_id (set (rides s))"
    by (simp add: distinct_map)
  have I1: "\<forall>rp \<in> set ?rps. \<forall>x \<in> set (rides (fst (s, []::event list))).
      ride_id x = ride_id (fst rp) \<longrightarrow> x = fst rp"
  proof (intro ballI impI)
    fix rp x
    assume "rp \<in> set ?rps" and x: "x \<in> set (rides (fst (s, []::event list)))"
      and same: "ride_id x = ride_id (fst rp)"
    then have "fst rp \<in> set (rides s)" by auto
    moreover from x have "x \<in> set (rides s)" by simp
    ultimately show "x = fst rp"
      using inj same by (rule_tac inj_onD)
  qed
  have I2: "\<forall>x \<in> set (rides (fst (s, []::event list))). activeRide x \<longrightarrow>
      settled provider x \<or> ride_id x \<in> (\<lambda>rp. ride_id (fst rp)) ` set ?rps"
  proof (intro ballI impI)
    fix x
    assume "x \<in> set (rides (fst (s, []::event list)))" and "activeRide x"
    then have "x \<in> set (filter activeRide (rides s))" by simp
    then have "ride_id x \<in> ride_id ` set (filter activeRide (rides s))" by (rule imageI)
    also have "ride_id ` set (filter activeRide (rides s)) = (\<lambda>rp. ride_id (fst rp)) ` set ?rps"
      using ids by (metis list.set_map)
    finally show "settled provider x \<or> ride_id x \<in> (\<lambda>rp. ride_id (fst rp)) ` set ?rps" ..
  qed
  show ?thesis
    unfolding updateRideStatuses_def using d I1 I2 by (rule fold_syncStep_invariant)
qed

text \<open>
  C6.  When ride identifiers are unique (they are the table's key) and the provider
  reports the same for each ride in both runs, the second of two consecutive
  status-sync sweeps emits no notification at all and sends no message.  And in any
  sweep no emitted status-change notification has equal old and new status: a write
  that leaves the status unchanged emits nothing.
\<close>

theorem status_sync_idempotent:
  "(distinct (map ride_id (rides s)) \<longrightarrow>
      snd (updateRideStatuses tw provider (fst (updateRideStatuses tw provider s))) = []
      \<and> smsMessages (fst (updateRideStatuses tw provider (fst (updateRideStatuses tw provider s))))
          = smsMessages (fst (updateRideStatuses tw provider s)))
   \<and> (\<forall>e \<in> set (snd (updateRideStatuses tw provider s)). \<not> isNoOpUpdate e)"
proof (intro conjI impI)
  let ?s1 = "fst (updateRideStatuses tw provider s)"
  let ?rps = "map (\<lambda>r. (r, ridePatient ?s1 r)) (filter activeRide (rides ?s1))"
  assume "distinct (map ride_id (rides s))"
  then have "\<forall>x \<in> set (rides ?s1). activeRide x \<longrightarrow> settled provider x"
    by (rule sweep_leaves_settled)
  then have "\<forall>rp \<in> set ?rps. settled provider (fst rp)"
    by auto
  then have "snd (fold (syncStep tw provider) ?rps (?s1, [])) = snd (?s1, []::event list)
      \<and> smsMessages (fst (fold (syncStep tw provider) ?rps (?s1, [])))
          = smsMessages (fst (?s1, []::event list))"
    by (rule fold_syncStep_settled)
  then show "snd (updateRideStatuses tw provider ?s1) = []"
    and "smsMessages (fst (updateRideStatuses tw provider ?s1)) = smsMessages ?s1"
    unfolding updateRideStatuses_def [of tw provider ?s1] by simp_all
next
  have "\<forall>e \<in> set (snd (s, []::event list)). \<not> isNoOpUpdate e"
    by simp
  then show "\<forall>e \<in> set (snd (updateRideStatuses tw provider s)). \<not> isNoOpUpdate e"
    unfolding updateRideStatuses_def by (rule fold_syncStep_no_noop)
qed

lemma scheduledState_distinct: "distinct (map ride_id (rides scheduledState))"
  by (simp add: scheduledState_def)

lemma scheduledState_first_run:
  "snd (updateRideStatuses liveTwilio arrivedProvider scheduledState)
     = [RIDE_STATUS_UPDATE ''r1'' ''SCHEDULED'' ''DRIVER_ASSIGNED'']"
  by code_simp

theorem status_sync_idempotent_witness:
  "distinct (map ride_id (rides scheduledState))
   \<and> snd (updateRideStatuses liveTwilio arrivedProvider scheduledState)
       = [RIDE_STATUS_UPDATE ''r1'' ''SCHEDULED'' ''DRIVER_ASSIGNED'']
   \<and> snd (updateRideStatuses liveTwilio arrivedProvider
            (fst (updateRideStatuses liveTwilio arrivedProvider scheduledState))) = []
   \<and> \<not> isNoOpUpdate (RIDE_STATUS_UPDATE ''r1'' ''SCHEDULED'' ''DRIVER_ASSIGNED'')"
proof -
  note main = status_sync_idempotent [of scheduledState liveTwilio arrivedProvider]
  from main have "distinct (map ride_id (rides scheduledState)) \<longrightarrow>
      snd (updateRideStatuses liveTwilio arrivedProvider
             (fst (updateRideStatuses liveTwilio arrivedProvider scheduledState))) = []"
    by blast
  with scheduledState_distinct
  have second: "snd (updateRideStatuses liveTwilio arrivedProvider
             (fst (updateRideStatuses liveTwilio arrivedProvider scheduledState))) = []"
    by blast
  from main
  have "\<forall>e \<in> set (snd (updateRideStatuses liveTwilio arrivedProvider scheduledState)).
      \<not> isNoOpUpdate e"
    by blast
  then have "\<not> isNoOpUpdate (RIDE_STATUS_UPDATE ''r1'' ''SCHEDULED'' ''DRIVER_ASSIGNED'')"
    unfolding scheduledState_first_run by simp
  with scheduledState_distinct scheduledState_first_run second show ?thesis
    by blast
qed

end
